theory Spec2Isabelle
  imports Complex_Main
begin

section \<open>The accounts table of the pool service\<close>

text \<open>
  The pool service keeps its credentials in one SQLite table \<open>accounts\<close>. A row is modelled
  as a record with the columns the service reads and writes (\<open>AccountInfo\<close> in \<open>main.py\<close>
  and the SQL of \<open>quota_tracker.py\<close>). The status column is text, as in the source.
  A \<open>datetime\<close> is an integer number of microseconds (its resolution in Python); SQLite
  stores it as ISO text, whose text order is the order of the instants.
\<close>

type_synonym timestamp = int

record account =
  email :: string
  local_id :: string
  id_token :: string
  refresh_token :: string
  status :: string
  session_id :: "string option"
  use_count :: nat
  created_at :: "timestamp option"
  last_used :: "timestamp option"
  last_refresh_time :: "timestamp option"
  quota_exhausted_at :: "timestamp option"

text \<open>
  Every method of \<open>QuotaTracker\<close> opens the database inside \<open>try\<close> and turns any
  exception of \<open>sqlite3\<close> into its failure value. The database is therefore an optional
  table: \<open>None\<close> is a database whose statement raises (no file, no table, locked), and
  \<open>Some rows\<close> is the table in row order.
\<close>

type_synonym database = "account list option"

definition emails_of :: "database \<Rightarrow> string set" where
  "emails_of db = (case db of None \<Rightarrow> {} | Some rows \<Rightarrow> email ` set rows)"


section \<open>quota\_tracker.py\<close>

definition microseconds_per_day :: int where
  "microseconds_per_day = 86400000000"

text \<open>\<open>self.quota_reset_days = 30\<close>\<close>

definition quota_reset_days :: int where
  "quota_reset_days = 30"

text \<open>\<open>timedelta(days=self.quota_reset_days)\<close>\<close>

definition quota_reset_delta :: int where
  "quota_reset_delta = quota_reset_days * microseconds_per_day"

text \<open>
  The \<open>UPDATE ... WHERE email = ?\<close> of \<open>mark_account_quota_exhausted\<close>: every row with
  that email gets the three columns, \<open>cursor.rowcount\<close> is the number of such rows.
\<close>

definition set_quota_exhausted :: "timestamp \<Rightarrow> account \<Rightarrow> account" where
  "set_quota_exhausted now r =
     r\<lparr>status := ''quota_exhausted'', quota_exhausted_at := Some now, session_id := None\<rparr>"

definition mark_account_quota_exhausted :: "database \<Rightarrow> timestamp \<Rightarrow> string \<Rightarrow> bool \<times> database" where
  "mark_account_quota_exhausted db now e =
     (case db of
        None \<Rightarrow> (False, None)
      | Some rows \<Rightarrow>
          (let rows' = map (\<lambda>r. if email r = e then set_quota_exhausted now r else r) rows;
               affected = length (filter (\<lambda>r. email r = e) rows)
           in if affected > 0 then (True, Some rows') else (False, Some rows')))"

text \<open>
  The \<open>WHERE status = 'quota_exhausted' AND quota_exhausted_at < ?\<close> of
  \<open>reset_expired_quotas\<close>; a comparison with SQL \<open>NULL\<close> selects nothing.
\<close>

definition quota_expired :: "timestamp \<Rightarrow> account \<Rightarrow> bool" where
  "quota_expired reset_threshold r =
     (status r = ''quota_exhausted'' \<and>
      (case quota_exhausted_at r of None \<Rightarrow> False | Some t \<Rightarrow> t < reset_threshold))"

definition clear_quota :: "account \<Rightarrow> account" where
  "clear_quota r = r\<lparr>status := ''available'', quota_exhausted_at := None\<rparr>"

definition reset_expired_quotas :: "database \<Rightarrow> timestamp \<Rightarrow> nat \<times> database" where
  "reset_expired_quotas db now =
     (case db of
        None \<Rightarrow> (0, None)
      | Some rows \<Rightarrow>
          (let reset_threshold = now - quota_reset_delta;
               accounts_to_reset = map email (filter (quota_expired reset_threshold) rows)
           in if accounts_to_reset \<noteq> []
              then (let rows' = map (\<lambda>r. if quota_expired reset_threshold r
                                            then clear_quota r else r) rows;
                        reset_count = length (filter (quota_expired reset_threshold) rows)
                    in (reset_count, Some rows'))
              else (0, Some rows)))"

text \<open>The invariant of the data model on one row.\<close>

definition quota_inv :: "account \<Rightarrow> bool" where
  "quota_inv r = ((quota_exhausted_at r \<noteq> None) = (status r = ''quota_exhausted''))"

section \<open>main.py: the endpoint \<open>/api/accounts/mark_quota_exhausted\<close>\<close>

text \<open>
  The request body is a \<open>Dict[str, str]\<close>. The handler raises \<open>HTTPException\<close> with a
  status code, or returns a dictionary with \<open>success\<close> and a message; the two message
  patterns of the source are the two constructors of \<open>mark_text\<close>, each with the email.
\<close>

datatype http_exception = HTTPException nat

datatype mark_text = Marked string | MarkFailed string

record mark_response =
  mark_success :: bool
  mark_message :: mark_text

definition mark_quota_exhausted ::
  "database \<Rightarrow> timestamp \<Rightarrow> (string \<rightharpoonup> string) \<Rightarrow> (http_exception + mark_response) \<times> database" where
  "mark_quota_exhausted db now request =
     (case request ''email'' of
        None \<Rightarrow> (Inl (HTTPException 400), db)
      | Some e \<Rightarrow>
          if e = [] then (Inl (HTTPException 400), db)
          else (case mark_account_quota_exhausted db now e of
                  (ok, db') \<Rightarrow>
                    if ok then (Inr \<lparr>mark_success = True, mark_message = Marked e\<rparr>, db')
                    else (Inr \<lparr>mark_success = False, mark_message = MarkFailed e\<rparr>, db')))"

section \<open>main.py: the endpoint \<open>/api/accounts/allocate\<close>\<close>

text \<open>
  \<open>AllocateAccountRequest\<close>: an optional session id and an optional count (default 1,
  validated by the framework to lie between 1 and 10 before the handler runs).
\<close>

record allocate_account_request =
  req_session_id :: "string option"
  req_count :: "int option"

text \<open>
  \<open>AccountInfo\<close>: the fields of a row that the response carries. The ISO text of a
  \<open>datetime\<close> is identified with the instant.
\<close>

record account_info =
  info_email :: string
  info_local_id :: string
  info_id_token :: string
  info_refresh_token :: string
  info_status :: string
  info_created_at :: "timestamp option"
  info_last_used :: "timestamp option"
  info_last_refresh_time :: "timestamp option"
  info_use_count :: nat
  info_session_id :: "string option"

datatype allocate_text = CannotAllocate | Allocated nat

record allocate_account_response =
  resp_success :: bool
  resp_session_id :: string
  resp_accounts :: "account_info list"
  resp_message :: "allocate_text option"

text \<open>
  The module \<open>account_pool/pool_manager.py\<close> is not among the sources. The handler uses two
  things of the global \<open>pool_manager\<close>: the flag \<open>_running\<close> and the coroutine
  \<open>allocate_accounts_for_request(request_id=...)\<close>, which is given the session id of the
  request and nothing else. Both are parameters here: the coroutine is a function from the
  request id to the accounts it returns, \<open>None\<close> when it raises. The global is \<open>None\<close>
  before start-up.
\<close>

record pool_manager =
  running :: bool
  allocate_accounts_for_request :: "string option \<Rightarrow> account list option"

definition to_account_info :: "account \<Rightarrow> account_info" where
  "to_account_info acc =
     \<lparr>info_email = email acc,
      info_local_id = local_id acc,
      info_id_token = id_token acc,
      info_refresh_token = refresh_token acc,
      info_status = status acc,
      info_created_at = created_at acc,
      info_last_used = last_used acc,
      info_last_refresh_time = last_refresh_time acc,
      info_use_count = use_count acc,
      info_session_id = session_id acc\<rparr>"

text \<open>
  The handler. \<open>request.session_id or ""\<close> is the session id of the refusal. In the success
  branch the session id is that of the first account; the response model declares it a
  \<open>str\<close>, so a first account without session id fails validation inside the \<open>try\<close>
  and becomes the status 500, like every other exception there.
\<close>

definition allocate_accounts ::
  "pool_manager option \<Rightarrow> allocate_account_request \<Rightarrow> http_exception + allocate_account_response" where
  "allocate_accounts pm request =
     (case pm of
        None \<Rightarrow> Inl (HTTPException 503)
      | Some mgr \<Rightarrow>
          if \<not> running mgr then Inl (HTTPException 503)
          else (case allocate_accounts_for_request mgr (req_session_id request) of
                  None \<Rightarrow> Inl (HTTPException 500)
                | Some accounts \<Rightarrow>
                    if accounts = []
                    then Inr \<lparr>resp_success = False,
                              resp_session_id = (case req_session_id request of
                                                   None \<Rightarrow> []
                                                 | Some sid \<Rightarrow> sid),
                              resp_accounts = [],
                              resp_message = Some CannotAllocate\<rparr>
                    else (let account_list = map to_account_info accounts
                          in case session_id (hd accounts) of
                               None \<Rightarrow> Inl (HTTPException 500)
                             | Some actual_session_id \<Rightarrow>
                                 Inr \<lparr>resp_success = True,
                                      resp_session_id = actual_session_id,
                                      resp_accounts = account_list,
                                      resp_message = Some (Allocated (length accounts))\<rparr>)))"

section \<open>batch\_register.py\<close>

subsection \<open>The store\<close>

datatype store_error = DuplicateKey | StoreUnavailable

text \<open>
  Modelled from the spec: \<open>Account\<close> and \<open>Database.add_account\<close> of
  \<open>account_pool/database.py\<close>, which is not among the sources. The spec: "\<open>add(credential)\<close>
  fails with \<open>DuplicateKey\<close> if the identity already exists", and a credential "enters as
  \<open>available\<close>" with no session. A failure is an exception at the call site.
\<close>

definition Account :: "string \<Rightarrow> string \<Rightarrow> string \<Rightarrow> string \<Rightarrow> string \<Rightarrow> account" where
  "Account e lid idt rt st =
     \<lparr>email = e, local_id = lid, id_token = idt, refresh_token = rt, status = st,
      session_id = None, use_count = 0, created_at = None, last_used = None,
      last_refresh_time = None, quota_exhausted_at = None\<rparr>"

definition add_account :: "account \<Rightarrow> database \<Rightarrow> store_error + database" where
  "add_account acc db =
     (case db of
        None \<Rightarrow> Inl StoreUnavailable
      | Some rows \<Rightarrow>
          if email acc \<in> set (map email rows) then Inl DuplicateKey
          else Inr (Some (rows @ [acc])))"

subsection \<open>One registration attempt\<close>

text \<open>
  The Registrar (\<open>CompleteScriptRegistration.run_complete_registration\<close>) is an external
  collaborator: what it returns is an input of the model. The record has the keys of its
  result that \<open>_register_single_account\<close> reads; a key read with \<open>.get\<close> and tested for
  truth is a \<open>bool\<close>, a missing \<open>final_tokens\<close> is \<open>None\<close>.
\<close>

record final_tokens =
  ft_success :: bool
  ft_error :: string
  ft_email :: string
  ft_local_id :: string
  ft_id_token :: string
  ft_refresh_token :: string

record registration =
  reg_success :: bool
  reg_error :: string
  reg_email_info :: bool
  reg_signin_success :: bool
  reg_signin_error :: string
  reg_email_result :: bool
  reg_final_tokens :: "final_tokens option"

datatype registrar_outcome = RegistrarRaised | Registered registration

text \<open>
  \<open>_activate_warp_user\<close> and \<open>_get_request_limit\<close> catch every exception themselves.
  Without a token they answer at once; otherwise their answer is computed from the reply of
  the remote service, which is an input. \<open>_activate_warp_user\<close> returns a dictionary with
  \<open>success\<close> on every path. \<open>_get_request_limit\<close> returns such a dictionary too, except
  for a reply of type \<open>UserOutput\<close> whose \<open>requestLimitInfo\<close> is missing or empty: that
  branch has no \<open>return\<close>, the function falls off its end and answers \<open>None\<close>
  (\<open>NoLimitInfo\<close>).
\<close>

datatype activation = Activated | ActivationFailed string

datatype limit_info = RequestLimit "int option" | LimitFailed string | NoLimitInfo

definition activate_warp_user :: "string \<Rightarrow> activation \<Rightarrow> activation" where
  "activate_warp_user idt remote =
     (if idt = [] then ActivationFailed ''missing Firebase ID Token'' else remote)"

definition get_request_limit :: "string \<Rightarrow> limit_info \<Rightarrow> limit_info" where
  "get_request_limit idt remote =
     (if idt = [] then LimitFailed ''missing Firebase ID Token'' else remote)"

text \<open>
  What one attempt meets: the Registrar's outcome, the two remote answers, and the number
  of seconds the attempt runs from its start to its return (\<open>duration\<close> in the result).
  \<open>att_index\<close> is the number \<open>i + 1\<close> given to the task at submission.
\<close>

record attempt =
  att_index :: int
  att_registrar :: registrar_outcome
  att_activation :: activation
  att_limit :: limit_info
  att_duration :: nat

datatype register_error =
    CreateMailboxFailed
  | SigninFailed string
  | NoVerificationMail
  | CompleteLoginFailed string
  | RegistrarError string
  | WarpActivationFailed string
  | RegistrationException
  | TaskException

record register_result =
  res_success :: bool
  res_index :: int
  res_email :: "string option"
  res_local_id :: "string option"
  res_request_limit :: "int option"
  res_error :: "register_error option"
  res_duration :: "nat option"

definition failure_result :: "attempt \<Rightarrow> string option \<Rightarrow> register_error \<Rightarrow> register_result" where
  "failure_result att e err =
     \<lparr>res_success = False, res_index = att_index att, res_email = e, res_local_id = None,
      res_request_limit = None, res_error = Some err, res_duration = Some (att_duration att)\<rparr>"

text \<open>The \<open>else\<close> branch: which step of the Registrar failed.\<close>

definition registration_error :: "registration \<Rightarrow> register_error" where
  "registration_error result =
     (if \<not> reg_email_info result then CreateMailboxFailed
      else if \<not> reg_signin_success result then SigninFailed (reg_signin_error result)
      else if \<not> reg_email_result result then NoVerificationMail
      else if \<not> (case reg_final_tokens result of None \<Rightarrow> False | Some ft \<Rightarrow> ft_success ft)
           then CompleteLoginFailed (case reg_final_tokens result of
                                       None \<Rightarrow> ''unknown'' | Some ft \<Rightarrow> ft_error ft)
      else RegistrarError (reg_error result))"

text \<open>
  \<open>_register_single_account\<close>, run by a worker thread: it returns its result dictionary
  and the database as it leaves it. The inner \<open>try\<close> around \<open>self.db.add_account\<close>
  only prints when the add raises; the \<open>return\<close> after it is the same in both cases.
  A missing \<open>final_tokens\<close> raises \<open>KeyError\<close>, and \<open>limit_info['success']\<close> on the
  answer \<open>None\<close> raises \<open>TypeError\<close>: the outer \<open>except\<close> catches both and reports a
  failure, in the second case before the add is reached.
\<close>

definition register_single_account :: "database \<Rightarrow> attempt \<Rightarrow> register_result \<times> database" where
  "register_single_account db att =
     (case att_registrar att of
        RegistrarRaised \<Rightarrow> (failure_result att None RegistrationException, db)
      | Registered result \<Rightarrow>
          if reg_success result
          then (case reg_final_tokens result of
                  None \<Rightarrow> (failure_result att None RegistrationException, db)
                | Some ft \<Rightarrow>
                    (case activate_warp_user (ft_id_token ft) (att_activation att) of
                       ActivationFailed err \<Rightarrow>
                         (failure_result att (Some (ft_email ft)) (WarpActivationFailed err), db)
                     | Activated \<Rightarrow>
                         (case get_request_limit (ft_id_token ft) (att_limit att) of
                            NoLimitInfo \<Rightarrow> (failure_result att None RegistrationException, db)
                          | limit_info \<Rightarrow>
                              (let request_limit =
                                     (case limit_info of
                                        RequestLimit l \<Rightarrow> l
                                      | _ \<Rightarrow> None);
                                   account = Account (ft_email ft) (ft_local_id ft)
                                               (ft_id_token ft) (ft_refresh_token ft)
                                               ''available'';
                                   db' = (case add_account account db of
                                            Inr saved \<Rightarrow> saved
                                          | Inl _ \<Rightarrow> db)
                               in (\<lparr>res_success = True, res_index = att_index att,
                                     res_email = Some (ft_email ft),
                                     res_local_id = Some (ft_local_id ft),
                                     res_request_limit = request_limit,
                                     res_error = None,
                                     res_duration = Some (att_duration att)\<rparr>, db')))))
          else (failure_result att None (registration_error result), db))"

subsection \<open>One replenishment pass\<close>

text \<open>
  The executor runs every submitted task to its end: the \<open>with\<close> block does not leave
  before all workers have returned. \<open>as_completed(futures)\<close> hands over a future only once
  it is finished, and \<open>future.result(timeout=300)\<close> on a finished future returns its value
  (or re-raises the exception of the worker) at once: the time-out bounds the wait of that
  call, which is zero, not the running time of the attempt.
\<close>

datatype 'a future = Finished 'a | Raised

definition future_result :: "nat \<Rightarrow> 'a future \<Rightarrow> register_error + 'a" where
  "future_result timeout fut = (case fut of Finished r \<Rightarrow> Inr r | Raised \<Rightarrow> Inl TaskException)"

text \<open>
  The workers, in the order in which they finish: each writes to the database on its own,
  before it returns, and leaves a finished future.
\<close>

fun run_workers :: "database \<Rightarrow> attempt list \<Rightarrow> register_result future list \<times> database" where
  "run_workers db [] = ([], db)"
| "run_workers db (att # atts) =
     (case register_single_account db att of
        (result, db') \<Rightarrow>
          (case run_workers db' atts of
             (futures, db'') \<Rightarrow> (Finished result # futures, db'')))"

record pass_counts =
  success_count :: nat
  failed_count :: nat
  high_quota_count :: nat
  normal_quota_count :: nat

definition error_result :: register_result where
  "error_result =
     \<lparr>res_success = False, res_index = - 1, res_email = None, res_local_id = None,
      res_request_limit = None, res_error = Some TaskException, res_duration = None\<rparr>"

text \<open>The loop over \<open>as_completed(futures)\<close>.\<close>

fun collect_results ::
  "register_result future list \<Rightarrow> register_result list \<times> pass_counts \<Rightarrow> register_result list \<times> pass_counts" where
  "collect_results [] acc = acc"
| "collect_results (future # futures) (results, c) =
     (case future_result 300 future of
        Inr result \<Rightarrow>
          if res_success result
          then (let limit = res_request_limit result;
                    c1 = c\<lparr>success_count := success_count c + 1\<rparr>;
                    c2 = (if limit = Some 2500
                          then c1\<lparr>high_quota_count := high_quota_count c1 + 1\<rparr>
                          else if limit = Some 150
                          then c1\<lparr>normal_quota_count := normal_quota_count c1 + 1\<rparr>
                          else c1)
                in collect_results futures (results @ [result], c2))
          else collect_results futures
                 (results @ [result], c\<lparr>failed_count := failed_count c + 1\<rparr>)
      | Inl _ \<Rightarrow>
          collect_results futures
            (results @ [error_result], c\<lparr>failed_count := failed_count c + 1\<rparr>))"

text \<open>
  \<open>register_accounts_concurrent\<close>: the attempts are the \<open>count\<close> submitted tasks, listed in
  the order in which they finish. The result is the list it returns, the counters it
  prints, and the database after the pass.
\<close>

definition register_accounts_concurrent ::
  "database \<Rightarrow> attempt list \<Rightarrow> register_result list \<times> pass_counts \<times> database" where
  "register_accounts_concurrent db attempts =
     (case run_workers db attempts of
        (futures, db') \<Rightarrow>
          (case collect_results futures
                  ([], \<lparr>success_count = 0, failed_count = 0,
                        high_quota_count = 0, normal_quota_count = 0\<rparr>) of
             (results, counts) \<Rightarrow> (results, counts, db')))"

section \<open>pool\_auth.py: the broker\<close>

subsection \<open>State, replies and observable events\<close>

text \<open>
  An account of a lease is the JSON of an \<open>AccountInfo\<close>. The broker reads its keys with
  \<open>.get\<close> and tests them for truth, so a missing key and an empty string behave alike:
  the empty string stands for both. The same holds for the session id of the reply.
  \<open>time.time()\<close> is a number of seconds; the rounding of floats is not modelled.
\<close>

record session =
  sess_session_id :: string
  sess_accounts :: "account_info list"
  sess_account :: account_info
  sess_account_index :: nat
  sess_access_token :: string
  sess_created_at :: real

text \<open>
  The module global \<open>_current_session\<close> and the fields of the one \<open>PoolAuthManager\<close>
  (\<open>get_pool_manager\<close> makes a single instance).
\<close>

record broker =
  current_session :: "session option"
  current_session_id :: "string option"
  current_account :: "account_info option"
  accounts :: "account_info list"
  account_index :: nat
  access_token :: "string option"

definition initial_broker :: broker where
  "initial_broker =
     \<lparr>current_session = None, current_session_id = None, current_account = None,
      accounts = [], account_index = 0, access_token = None\<rparr>"

text \<open>
  A reply of a remote service: the client raised (no connection, time-out, a body that is
  not JSON), or a status code with the decoded body.
\<close>

datatype 'a http_reply = RequestFailed | Reply nat 'a

record allocate_body =
  body_success :: bool
  body_session_id :: string
  body_accounts :: "account_info list"

record token_body =
  body_access_token :: string
  body_id_token :: string

text \<open>
  What an operation does to the outside, in order: taking and leaving \<open>_session_lock\<close>,
  the requests it sends, and the call of \<open>update_env_file\<close>.
\<close>

datatype event =
    LockAcquire
  | LockRelease
  | AllocateRequest int
  | RefreshRequest string
  | MarkRequest string
  | ReleaseRequest string
  | UpdateEnv string

datatype broker_error =
    AllocateHttpError nat
  | AllocateRefused
  | NoAccounts
  | MissingToken
  | RefreshHttpError nat
  | NoAccessToken
  | ClientException
  | EnvFileError

text \<open>
  The module \<open>auth\<close> (\<open>is_token_expired\<close>, \<open>update_env_file\<close>) is not among the sources;
  both functions are parameters, together with \<open>ACCOUNTS_PER_REQUEST\<close>, which is read from
  the environment. \<open>is_token_expired\<close> answers \<open>None\<close> when it raises, \<open>update_env_file\<close>
  answers \<open>False\<close> when it raises. \<open>is_token_expired\<close> reads the clock: the function
  gives its answers at the time of the call in which it is used.
\<close>

record config =
  accounts_per_request :: int
  is_token_expired :: "string \<Rightarrow> bool option"
  update_env_file :: "string \<Rightarrow> bool"

subsection \<open>\<open>_get_access_token_from_account\<close>\<close>

definition get_access_token_from_account ::
  "account_info \<Rightarrow> token_body http_reply \<Rightarrow> (broker_error + string) \<times> event list" where
  "get_access_token_from_account account reply =
     (if info_refresh_token account = []
      then (if info_id_token account \<noteq> [] then (Inr (info_id_token account), [])
            else (Inl MissingToken, []))
      else (case reply of
              RequestFailed \<Rightarrow> (Inl ClientException, [RefreshRequest (info_refresh_token account)])
            | Reply code token_data \<Rightarrow>
                (if code \<noteq> 200
                 then (if info_id_token account \<noteq> [] then Inr (info_id_token account)
                       else Inl (RefreshHttpError code))
                 else if body_access_token token_data = []
                 then (let idt = (if info_id_token account \<noteq> [] then info_id_token account
                                  else body_id_token token_data)
                       in if idt \<noteq> [] then Inr idt else Inl NoAccessToken)
                 else Inr (body_access_token token_data),
                 [RefreshRequest (info_refresh_token account)])))"

subsection \<open>\<open>_is_session_valid\<close>\<close>

text \<open>The last lines of \<open>_is_session_valid\<close>: the lease is copied into the instance.\<close>

definition restore_accounts :: "session \<Rightarrow> broker \<Rightarrow> broker" where
  "restore_accounts s b =
     (let b1 = b\<lparr>accounts := sess_accounts s, account_index := sess_account_index s\<rparr>
      in if accounts b1 \<noteq> [] \<and> account_index b1 < length (accounts b1)
         then b1\<lparr>current_account := Some (accounts b1 ! account_index b1)\<rparr>
         else b1)"

definition is_session_valid :: "config \<Rightarrow> real \<Rightarrow> session \<Rightarrow> broker \<Rightarrow> bool \<times> broker" where
  "is_session_valid cfg now s b =
     (if now - sess_created_at s > 1800 then (False, b)
      else if sess_access_token s = [] then (False, b)
      else (case is_token_expired cfg (sess_access_token s) of
              Some True \<Rightarrow> (False, b)
            | Some False \<Rightarrow> (True, restore_accounts s b)
            | None \<Rightarrow>
                (let idt = info_id_token (sess_account s)
                 in if idt \<noteq> []
                    then (case is_token_expired cfg idt of
                            Some True \<Rightarrow> (False, b)
                          | _ \<Rightarrow> (True, restore_accounts s b))
                    else (True, restore_accounts s b))))"

subsection \<open>\<open>acquire_pool_access_token\<close>\<close>

text \<open>
  The first \<open>with _session_lock\<close> block: the cached session is tested under the lock, and
  the lock is left before anything else happens. \<open>Some token\<close> is the early \<open>return\<close>.
\<close>

definition acquire_check :: "config \<Rightarrow> real \<Rightarrow> broker \<Rightarrow> string option \<times> broker \<times> event list" where
  "acquire_check cfg now b =
     (case current_session b of
        None \<Rightarrow> (None, b, [LockAcquire, LockRelease])
      | Some s \<Rightarrow>
          (case is_session_valid cfg now s b of
             (True, b') \<Rightarrow> (Some (sess_access_token s), b', [LockAcquire, LockRelease])
           | (False, b') \<Rightarrow> (None, b', [LockAcquire, LockRelease])))"

text \<open>
  The rest of the \<open>try\<close> block: the allocation request, the token of the first account,
  the second \<open>with _session_lock\<close> block that stores the session, and \<open>update_env_file\<close>.
  Every exception leaves as a \<open>RuntimeError\<close>, with what was assigned before it kept.
\<close>

definition acquire_allocate ::
  "config \<Rightarrow> real \<Rightarrow> allocate_body http_reply \<Rightarrow> token_body http_reply \<Rightarrow> broker
     \<Rightarrow> (broker_error + string) \<times> broker \<times> event list" where
  "acquire_allocate cfg now allocation refresh b =
     (let request = [AllocateRequest (accounts_per_request cfg)]
      in case allocation of
           RequestFailed \<Rightarrow> (Inl ClientException, b, request)
         | Reply code data \<Rightarrow>
             if code \<noteq> 200 then (Inl (AllocateHttpError code), b, request)
             else if \<not> body_success data then (Inl AllocateRefused, b, request)
             else if body_accounts data = [] then (Inl NoAccounts, b, request)
             else (let session_id = body_session_id data;
                       b1 = b\<lparr>accounts := body_accounts data, account_index := 0,
                              current_account := Some (hd (body_accounts data))\<rparr>
                   in case get_access_token_from_account (hd (body_accounts data)) refresh of
                        (Inl err, evs) \<Rightarrow> (Inl err, b1, request @ evs)
                      | (Inr token, evs) \<Rightarrow>
                          (let b2 = b1\<lparr>current_session :=
                                          Some \<lparr>sess_session_id = session_id,
                                                sess_accounts = body_accounts data,
                                                sess_account = hd (body_accounts data),
                                                sess_account_index = 0,
                                                sess_access_token = token,
                                                sess_created_at = now\<rparr>\<rparr>;
                               b3 = b2\<lparr>current_session_id := Some session_id,
                                       access_token := Some token\<rparr>;
                               trace = request @ evs @ [LockAcquire, LockRelease, UpdateEnv token]
                           in if update_env_file cfg token then (Inr token, b3, trace)
                              else (Inl EnvFileError, b3, trace))))"

definition acquire_pool_access_token ::
  "config \<Rightarrow> real \<Rightarrow> allocate_body http_reply \<Rightarrow> token_body http_reply \<Rightarrow> broker
     \<Rightarrow> (broker_error + string) \<times> broker \<times> event list" where
  "acquire_pool_access_token cfg now allocation refresh b =
     (case acquire_check cfg now b of
        (Some token, b', evs) \<Rightarrow> (Inr token, b', evs)
      | (None, b', evs) \<Rightarrow>
          (case acquire_allocate cfg now allocation refresh b' of
             (r, b'', evs') \<Rightarrow> (r, b'', evs @ evs')))"

subsection \<open>\<open>release_current_session\<close>\<close>

text \<open>The \<open>finally\<close> block, and the same assignments in \<open>mark_current_account_quota_exhausted\<close>.\<close>

definition clear_session :: "broker \<Rightarrow> broker" where
  "clear_session b =
     b\<lparr>current_session := None, current_session_id := None, current_account := None,
       accounts := [], account_index := 0, access_token := None\<rparr>"

text \<open>
  The whole body runs inside \<open>with _session_lock\<close>. The reply of the pool service only
  selects the line that is logged; the \<open>finally\<close> block runs in each case.
\<close>

definition release_current_session :: "unit http_reply \<Rightarrow> broker \<Rightarrow> broker \<times> event list" where
  "release_current_session reply b =
     (case current_session b of
        None \<Rightarrow> (b, [LockAcquire, LockRelease])
      | Some s \<Rightarrow>
          if sess_session_id s = [] then (b, [LockAcquire, LockRelease])
          else (case reply of
                  RequestFailed \<Rightarrow>
                    (clear_session b, [LockAcquire, ReleaseRequest (sess_session_id s), LockRelease])
                | Reply code _ \<Rightarrow>
                    (clear_session b, [LockAcquire, ReleaseRequest (sess_session_id s), LockRelease])))"

subsection \<open>\<open>_switch_to_next_account\<close> and \<open>mark_current_account_quota_exhausted\<close>\<close>

text \<open>
  The body of \<open>_switch_to_next_account\<close> runs inside \<open>with _session_lock\<close>, the token
  request included. If \<open>update_env_file\<close> raises, the \<open>except\<close> answers \<open>False\<close> with the
  session already moved to the next account.
\<close>

definition switch_to_next_account ::
  "config \<Rightarrow> token_body http_reply \<Rightarrow> broker \<Rightarrow> bool \<times> broker \<times> event list" where
  "switch_to_next_account cfg refresh b =
     (case current_session b of
        None \<Rightarrow> (False, b, [LockAcquire, LockRelease])
      | Some s \<Rightarrow>
          (let next_index = sess_account_index s + 1
           in if next_index \<ge> length (sess_accounts s)
              then (False, b, [LockAcquire, LockRelease])
              else (let next_account = sess_accounts s ! next_index
                    in case get_access_token_from_account next_account refresh of
                         (Inl err, evs) \<Rightarrow> (False, b, [LockAcquire] @ evs @ [LockRelease])
                       | (Inr token, evs) \<Rightarrow>
                           (let s' = s\<lparr>sess_account := next_account,
                                       sess_account_index := next_index,
                                       sess_access_token := token\<rparr>;
                                b' = b\<lparr>current_session := Some s',
                                       current_account := Some next_account,
                                       account_index := next_index,
                                       access_token := Some token\<rparr>
                            in (update_env_file cfg token, b',
                                [LockAcquire] @ evs @ [UpdateEnv token, LockRelease])))))"

text \<open>
  \<open>mark_current_account_quota_exhausted\<close>: the email is read under the lock, the request
  to the pool service is sent after the lock is left. An account without email covers the
  test \<open>if not account\<close> as well, since an empty dictionary has no email.
\<close>

definition mark_current_account_quota_exhausted ::
  "config \<Rightarrow> unit http_reply \<Rightarrow> token_body http_reply \<Rightarrow> broker \<Rightarrow> bool \<times> broker \<times> event list" where
  "mark_current_account_quota_exhausted cfg reply refresh b =
     (case current_session b of
        None \<Rightarrow> (False, b, [LockAcquire, LockRelease])
      | Some s \<Rightarrow>
          (let e = info_email (sess_account s)
           in if e = [] then (False, b, [LockAcquire, LockRelease])
              else (case reply of
                      RequestFailed \<Rightarrow> (False, b, [LockAcquire, LockRelease, MarkRequest e])
                    | Reply code _ \<Rightarrow>
                        if code = 200
                        then (case switch_to_next_account cfg refresh b of
                                (True, b', evs) \<Rightarrow>
                                  (True, b', [LockAcquire, LockRelease, MarkRequest e] @ evs)
                              | (False, b', evs) \<Rightarrow>
                                  (True, clear_session b',
                                   [LockAcquire, LockRelease, MarkRequest e] @ evs))
                        else (False, b, [LockAcquire, LockRelease, MarkRequest e]))))"

subsection \<open>Reading a trace\<close>

text \<open>
  The requests of a trace that are sent while the lock is not held; the first argument
  says whether the lock is held at the start.
\<close>

fun unlocked_requests :: "bool \<Rightarrow> event list \<Rightarrow> event list" where
  "unlocked_requests held [] = []"
| "unlocked_requests held (LockAcquire # evs) = unlocked_requests True evs"
| "unlocked_requests held (LockRelease # evs) = unlocked_requests False evs"
| "unlocked_requests held (UpdateEnv t # evs) = unlocked_requests held evs"
| "unlocked_requests held (ev # evs) =
     (if held then unlocked_requests held evs else ev # unlocked_requests held evs)"

fun is_allocate_request :: "event \<Rightarrow> bool" where
  "is_allocate_request (AllocateRequest n) = True"
| "is_allocate_request ev = False"

definition allocate_requests :: "event list \<Rightarrow> nat" where
  "allocate_requests evs = length (filter is_allocate_request evs)"

subsection \<open>Two calls of \<open>acquire_pool_access_token\<close>\<close>

text \<open>
  The coroutines of one event loop change over at an \<open>await\<close> only. After its allocation
  request \<open>acquire_pool_access_token\<close> waits for a reply at most twice: for the allocation
  and, when the first account has a refresh token, for the token exchange. The code after
  the allocation request is therefore cut in two pieces, each of which runs without a
  break.

  The last piece, from the second \<open>with _session_lock\<close> block to the \<open>return\<close>. The session
  it stores holds the accounts of this call's reply, but its \<open>account\<close> is read from the
  field \<open>self.current_account\<close> at that moment. A field that another call has cleared in
  between (\<open>None\<close>) has no counterpart in the session record: the answer is \<open>None\<close> then.
\<close>

definition acquire_store ::
  "config \<Rightarrow> real \<Rightarrow> allocate_body \<Rightarrow> string \<Rightarrow> broker
     \<Rightarrow> ((broker_error + string) \<times> broker \<times> event list) option" where
  "acquire_store cfg now data token b =
     (case current_account b of
        None \<Rightarrow> None
      | Some account \<Rightarrow>
          (let session_id = body_session_id data;
               b2 = b\<lparr>current_session :=
                        Some \<lparr>sess_session_id = session_id,
                              sess_accounts = body_accounts data,
                              sess_account = account,
                              sess_account_index = 0,
                              sess_access_token = token,
                              sess_created_at = now\<rparr>\<rparr>;
               b3 = b2\<lparr>current_session_id := Some session_id, access_token := Some token\<rparr>;
               trace = [LockAcquire, LockRelease, UpdateEnv token]
           in if update_env_file cfg token then Some (Inr token, b3, trace)
              else Some (Inl EnvFileError, b3, trace)))"

text \<open>
  Where a call stands after the piece that handles the allocation reply: it has returned
  (with its result, and the state it returned in), or it has sent the token request and
  waits; the result of \<open>_get_access_token_from_account\<close> is fixed by the reply it waits for.
\<close>

datatype pending =
    Returned "broker_error + string" broker
  | AwaitsToken allocate_body "broker_error + string"

text \<open>
  The piece from the allocation reply to the token request. When the first account has no
  refresh token, \<open>_get_access_token_from_account\<close> sends nothing and does not wait, and the
  call goes on to its end in the same piece.
\<close>

definition acquire_receive ::
  "config \<Rightarrow> real \<Rightarrow> allocate_body http_reply \<Rightarrow> token_body http_reply \<Rightarrow> broker
     \<Rightarrow> (pending \<times> broker \<times> event list) option" where
  "acquire_receive cfg now allocation refresh b =
     (case allocation of
        RequestFailed \<Rightarrow> Some (Returned (Inl ClientException) b, b, [])
      | Reply code data \<Rightarrow>
          if code \<noteq> 200 then Some (Returned (Inl (AllocateHttpError code)) b, b, [])
          else if \<not> body_success data then Some (Returned (Inl AllocateRefused) b, b, [])
          else if body_accounts data = [] then Some (Returned (Inl NoAccounts) b, b, [])
          else (let b1 = b\<lparr>accounts := body_accounts data, account_index := 0,
                          current_account := Some (hd (body_accounts data))\<rparr>
                in case get_access_token_from_account (hd (body_accounts data)) refresh of
                     (result, evs) \<Rightarrow>
                       if evs \<noteq> [] then Some (AwaitsToken data result, b1, evs)
                       else (case result of
                               Inl err \<Rightarrow> Some (Returned (Inl err) b1, b1, [])
                             | Inr token \<Rightarrow>
                                 (case acquire_store cfg now data token b1 of
                                    None \<Rightarrow> None
                                  | Some (r, b', evs') \<Rightarrow> Some (Returned r b', b', evs')))))"

text \<open>
  The piece after the token reply; a call that has returned does nothing more. The answer
  is the result of the call with the state it returned in, the state now, and the events.
\<close>

definition acquire_resume ::
  "config \<Rightarrow> real \<Rightarrow> pending \<Rightarrow> broker
     \<Rightarrow> (((broker_error + string) \<times> broker) \<times> broker \<times> event list) option" where
  "acquire_resume cfg now p b =
     (case p of
        Returned r returned \<Rightarrow> Some ((r, returned), b, [])
      | AwaitsToken data result \<Rightarrow>
          (case result of
             Inl err \<Rightarrow> Some ((Inl err, b), b, [])
           | Inr token \<Rightarrow>
               (case acquire_store cfg now data token b of
                  None \<Rightarrow> None
                | Some (r, b', evs) \<Rightarrow> Some ((r, b'), b', evs))))"

text \<open>
  Two calls started together, with replies that arrive in the order of the requests. The
  first call tests the cache; on a hit it returns without waiting and the second call
  runs alone. On a miss it sends its allocation request and waits; the second call tests the
  cache and sends its own request; then the first and the second handle their allocation
  replies, and then the first and the second handle their token replies. Each call's
  result comes with the state in which the call returned.
\<close>

definition two_acquires_interleaved ::
  "config \<Rightarrow> real \<Rightarrow> allocate_body http_reply \<Rightarrow> token_body http_reply
     \<Rightarrow> allocate_body http_reply \<Rightarrow> token_body http_reply \<Rightarrow> broker
     \<Rightarrow> (((broker_error + string) \<times> broker) \<times> ((broker_error + string) \<times> broker)
          \<times> event list) option" where
  "two_acquires_interleaved cfg now allocation1 refresh1 allocation2 refresh2 b =
     (let send = [AllocateRequest (accounts_per_request cfg)]
      in case acquire_check cfg now b of
           (Some token1, b1, evs1) \<Rightarrow>
             (case acquire_pool_access_token cfg now allocation2 refresh2 b1 of
                (result2, b2, evs2) \<Rightarrow> Some ((Inr token1, b1), (result2, b2), evs1 @ evs2))
         | (None, b1, evs1) \<Rightarrow>
             (case acquire_check cfg now b1 of
                (Some token2, b2, evs2) \<Rightarrow>
                  (case acquire_receive cfg now allocation1 refresh1 b2 of
                     None \<Rightarrow> None
                   | Some (p1, b3, evs3) \<Rightarrow>
                  (case acquire_resume cfg now p1 b3 of
                     None \<Rightarrow> None
                   | Some (outcome1, b4, evs4) \<Rightarrow>
                       Some (outcome1, (Inr token2, b2), evs1 @ send @ evs2 @ evs3 @ evs4)))
              | (None, b2, evs2) \<Rightarrow>
                  (case acquire_receive cfg now allocation1 refresh1 b2 of
                     None \<Rightarrow> None
                   | Some (p1, b3, evs3) \<Rightarrow>
                  (case acquire_receive cfg now allocation2 refresh2 b3 of
                     None \<Rightarrow> None
                   | Some (p2, b4, evs4) \<Rightarrow>
                  (case acquire_resume cfg now p1 b4 of
                     None \<Rightarrow> None
                   | Some (outcome1, b5, evs5) \<Rightarrow>
                  (case acquire_resume cfg now p2 b5 of
                     None \<Rightarrow> None
                   | Some (outcome2, b6, evs6) \<Rightarrow>
                       Some (outcome1, outcome2,
                             evs1 @ send @ evs2 @ send @ evs3 @ evs4 @ evs5 @ evs6)))))))"

text \<open>The second call starts after the first one has returned.\<close>

definition two_acquires_sequential ::
  "config \<Rightarrow> real \<Rightarrow> allocate_body http_reply \<Rightarrow> token_body http_reply
     \<Rightarrow> real \<Rightarrow> allocate_body http_reply \<Rightarrow> token_body http_reply \<Rightarrow> broker
     \<Rightarrow> (broker_error + string) \<times> (broker_error + string) \<times> broker \<times> event list" where
  "two_acquires_sequential cfg now1 allocation1 refresh1 now2 allocation2 refresh2 b =
     (case acquire_pool_access_token cfg now1 allocation1 refresh1 b of
        (result1, b1, evs1) \<Rightarrow>
     (case acquire_pool_access_token cfg now2 allocation2 refresh2 b1 of
        (result2, b2, evs2) \<Rightarrow> (result1, result2, b2, evs1 @ evs2)))"

section \<open>Sample data\<close>

text \<open>Concrete rows, attempts and replies at which the theorems below are evaluated.\<close>

definition sample_account :: "string \<Rightarrow> string \<Rightarrow> string option \<Rightarrow> timestamp option \<Rightarrow> account" where
  "sample_account e st sid t =
     (Account e ''uid'' ''idt'' ''rt'' st)\<lparr>session_id := sid, quota_exhausted_at := t\<rparr>"

definition sample_tokens :: final_tokens where
  "sample_tokens =
     \<lparr>ft_success = True, ft_error = [], ft_email = ''a@x.io'', ft_local_id = ''uid-a'',
      ft_id_token = ''idt-a'', ft_refresh_token = ''rt-a''\<rparr>"

definition sample_registration :: registration where
  "sample_registration =
     \<lparr>reg_success = True, reg_error = [], reg_email_info = True, reg_signin_success = True,
      reg_signin_error = [], reg_email_result = True, reg_final_tokens = Some sample_tokens\<rparr>"

text \<open>An attempt in which every step succeeds, running for the given number of seconds.\<close>

definition sample_attempt :: "nat \<Rightarrow> attempt" where
  "sample_attempt seconds =
     \<lparr>att_index = 1, att_registrar = Registered sample_registration,
      att_activation = Activated, att_limit = RequestLimit (Some 150), att_duration = seconds\<rparr>"

text \<open>A running pool manager that hands out one account, bound to the session \<open>s-1\<close>.\<close>

definition sample_pool_manager :: pool_manager where
  "sample_pool_manager =
     \<lparr>running = True,
      allocate_accounts_for_request =
        (\<lambda>request_id. Some [sample_account ''a@x.io'' ''in_use'' (Some ''s-1'') None])\<rparr>"

text \<open>
  Broker data: an account of a lease, a configuration in which no token is expired, replies
  of the pool service and of the token exchange, and a cached session created at a given
  time with the token \<open>at-0\<close>.
\<close>

definition sample_info :: "string \<Rightarrow> string \<Rightarrow> account_info" where
  "sample_info sid e = to_account_info (sample_account e ''in_use'' (Some sid) None)"

definition sample_config :: config where
  "sample_config = \<lparr>accounts_per_request = 1, is_token_expired = (\<lambda>token. Some False),
     update_env_file = (\<lambda>token. True)\<rparr>"

definition sample_allocation :: "string \<Rightarrow> string \<Rightarrow> allocate_body http_reply" where
  "sample_allocation sid e = Reply 200 \<lparr>body_success = True, body_session_id = sid,
     body_accounts = [sample_info sid e]\<rparr>"

definition sample_refresh :: "string \<Rightarrow> token_body http_reply" where
  "sample_refresh token = Reply 200 \<lparr>body_access_token = token, body_id_token = []\<rparr>"

definition sample_session :: "string \<Rightarrow> real \<Rightarrow> session" where
  "sample_session sid t = \<lparr>sess_session_id = sid, sess_accounts = [sample_info sid ''a@x.io''],
     sess_account = sample_info sid ''a@x.io'', sess_account_index = 0,
     sess_access_token = ''at-0'', sess_created_at = t\<rparr>"


lemmas sample_defs = sample_config_def sample_allocation_def sample_refresh_def sample_session_def
  sample_info_def sample_account_def Account_def to_account_info_def initial_broker_def

lemmas broker_defs = acquire_pool_access_token_def acquire_check_def acquire_allocate_def
  is_session_valid_def restore_accounts_def get_access_token_from_account_def
  allocate_requests_def Let_def

section \<open>Auxiliary facts about lists\<close>

lemma filter_nonempty_iff: "(0 < length (filter P xs)) = (\<exists>x\<in>set xs. P x)"
  by (simp add: filter_empty_conv)

lemma map_if_none: "\<forall>x\<in>set xs. \<not> P x \<Longrightarrow> map (\<lambda>r. if P r then f r else r) xs = xs"
  by (induction xs) auto

section \<open>The quota operations\<close>

text \<open>
  C4. For every email that exists in the accounts table, marking it quota-exhausted returns
  true whatever the status of its row; afterwards every row with that email has status
  \<open>quota_exhausted\<close>, no session id and \<open>quota_exhausted_at\<close> equal to the current time,
  and every other row is as it was.
\<close>

theorem mark_existing_email:
  assumes "e \<in> emails_of (Some rows)"
  shows "\<exists>rows'. mark_account_quota_exhausted (Some rows) now e = (True, Some rows') \<and>
           length rows' = length rows \<and>
           (\<forall>i<length rows.
              rows' ! i = (if email (rows ! i) = e
                           then (rows ! i)\<lparr>status := ''quota_exhausted'',
                                            quota_exhausted_at := Some now,
                                            session_id := None\<rparr>
                           else rows ! i))"
proof -
  let ?rows' = "map (\<lambda>r. if email r = e then set_quota_exhausted now r else r) rows"
  from assms have "\<exists>r\<in>set rows. email r = e"
    by (auto simp: emails_of_def)
  then have pos: "0 < length (filter (\<lambda>r. email r = e) rows)"
    by (simp only: filter_nonempty_iff)
  have res: "mark_account_quota_exhausted (Some rows) now e = (True, Some ?rows')"
    using pos by (simp add: mark_account_quota_exhausted_def Let_def)
  have nth: "\<forall>i<length rows.
               ?rows' ! i = (if email (rows ! i) = e
                             then (rows ! i)\<lparr>status := ''quota_exhausted'',
                                              quota_exhausted_at := Some now,
                                              session_id := None\<rparr>
                             else rows ! i)"
    by (simp add: set_quota_exhausted_def)
  show ?thesis using res nth by simp
qed

theorem mark_existing_email_witness:
  "mark_account_quota_exhausted
     (Some [sample_account ''a@x.io'' ''in_use'' (Some ''s-1'') None,
            sample_account ''b@x.io'' ''available'' None None]) 7 ''a@x.io''
   = (True, Some [sample_account ''a@x.io'' ''quota_exhausted'' None (Some 7),
                  sample_account ''b@x.io'' ''available'' None None])"
proof -
  let ?rows = "[sample_account ''a@x.io'' ''in_use'' (Some ''s-1'') None,
                sample_account ''b@x.io'' ''available'' None None]"
  have h: "''a@x.io'' \<in> emails_of (Some ?rows)"
    by (simp add: emails_of_def sample_account_def Account_def)
  from mark_existing_email [OF h, of 7] show ?thesis
    by (simp add: mark_account_quota_exhausted_def set_quota_exhausted_def
        sample_account_def Account_def)
qed

text \<open>
  C5, as stated, fails at the boundary: an account marked at time 0 is not reclaimed by a run
  at exactly 0 + 30 days (the selection is \<open>quota_exhausted_at < now - 30 days\<close>); the run
  returns 0 and leaves the row \<open>quota_exhausted\<close>.
\<close>

theorem reset_at_cooldown_boundary:
  "reset_expired_quotas (Some [sample_account ''a@x.io'' ''quota_exhausted'' None (Some 0)])
     (0 + 30 * 86400000000)
   = (0, Some [sample_account ''a@x.io'' ''quota_exhausted'' None (Some 0)])"
  by (simp add: reset_expired_quotas_def quota_expired_def quota_reset_delta_def
      quota_reset_days_def microseconds_per_day_def sample_account_def Account_def)

text \<open>
  C5, amended. A row that is \<open>quota_exhausted\<close> since time \<open>T\<close> is left as it is by every
  reclaim run at a time up to and including \<open>T\<close> + 30 days; a run strictly after
  \<open>T\<close> + 30 days makes it \<open>available\<close>, clears \<open>quota_exhausted_at\<close>, and returns the number
  of rows it reclaimed, this row among them.
\<close>

theorem reset_after_cooldown:
  assumes "i < length rows"
    and "status (rows ! i) = ''quota_exhausted''"
    and "quota_exhausted_at (rows ! i) = Some T"
  shows "(now \<le> T + 30 * microseconds_per_day \<longrightarrow>
            (\<exists>n rows'. reset_expired_quotas (Some rows) now = (n, Some rows') \<and>
                       length rows' = length rows \<and> rows' ! i = rows ! i))
       \<and> (T + 30 * microseconds_per_day < now \<longrightarrow>
            (\<exists>n rows'. reset_expired_quotas (Some rows) now = (n, Some rows') \<and>
                       length rows' = length rows \<and>
                       status (rows' ! i) = ''available'' \<and>
                       quota_exhausted_at (rows' ! i) = None \<and>
                       n = length (filter (quota_expired (now - quota_reset_delta)) rows) \<and>
                       rows ! i \<in> set (filter (quota_expired (now - quota_reset_delta)) rows) \<and>
                       1 \<le> n))"
proof (intro conjI impI)
  assume early: "now \<le> T + 30 * microseconds_per_day"
  have "\<not> quota_expired (now - quota_reset_delta) (rows ! i)"
    using early assms(3) by (simp add: quota_expired_def quota_reset_delta_def quota_reset_days_def)
  then show "\<exists>n rows'. reset_expired_quotas (Some rows) now = (n, Some rows') \<and>
                       length rows' = length rows \<and> rows' ! i = rows ! i"
    using assms(1) by (simp add: reset_expired_quotas_def Let_def)
next
  assume late: "T + 30 * microseconds_per_day < now"
  let ?P = "quota_expired (now - quota_reset_delta)"
  have ex: "?P (rows ! i)"
    using late assms(2,3) by (simp add: quota_expired_def quota_reset_delta_def quota_reset_days_def)
  have mem: "rows ! i \<in> set (filter ?P rows)"
    using ex assms(1) by simp
  from mem have ne: "filter ?P rows \<noteq> []"
    by (metis empty_iff empty_set)
  then have pos: "1 \<le> length (filter ?P rows)"
    by (cases "filter ?P rows") simp_all
  have res: "reset_expired_quotas (Some rows) now =
      (length (filter ?P rows), Some (map (\<lambda>r. if ?P r then clear_quota r else r) rows))"
    using ne by (simp add: reset_expired_quotas_def Let_def)
  have nth: "map (\<lambda>r. if ?P r then clear_quota r else r) rows ! i = clear_quota (rows ! i)"
    using assms(1) ex by simp
  show "\<exists>n rows'. reset_expired_quotas (Some rows) now = (n, Some rows') \<and>
                       length rows' = length rows \<and>
                       status (rows' ! i) = ''available'' \<and>
                       quota_exhausted_at (rows' ! i) = None \<and>
                       n = length (filter ?P rows) \<and>
                       rows ! i \<in> set (filter ?P rows) \<and>
                       1 \<le> n"
    using res nth mem pos by (simp add: clear_quota_def)
qed

theorem reset_after_cooldown_witness:
  "reset_expired_quotas (Some [sample_account ''a@x.io'' ''quota_exhausted'' None (Some 5)])
     (5 + 30 * 86400000000)
   = (0, Some [sample_account ''a@x.io'' ''quota_exhausted'' None (Some 5)])
   \<and> reset_expired_quotas (Some [sample_account ''a@x.io'' ''quota_exhausted'' None (Some 5)])
     (5 + 30 * 86400000000 + 1)
   = (1, Some [sample_account ''a@x.io'' ''available'' None None])"
proof -
  let ?rows = "[sample_account ''a@x.io'' ''quota_exhausted'' None (Some 5)]"
  have h1: "0 < length ?rows" by simp
  have h2: "status (?rows ! 0) = ''quota_exhausted''"
    by (simp add: sample_account_def Account_def)
  have h3: "quota_exhausted_at (?rows ! 0) = Some 5"
    by (simp add: sample_account_def)
  from reset_after_cooldown [OF h1 h2 h3, of "5 + 30 * 86400000000"]
       reset_after_cooldown [OF h1 h2 h3, of "5 + 30 * 86400000000 + 1"]
  show ?thesis
    by (simp add: reset_expired_quotas_def quota_expired_def quota_reset_delta_def
        quota_reset_days_def microseconds_per_day_def clear_quota_def
        sample_account_def Account_def)
qed

text \<open>
  C6. Take a row on which \<open>quota_exhausted_at\<close> is set exactly when the status is
  \<open>quota_exhausted\<close>. Marking an email quota-exhausted sets both fields of the row together
  when the row has that email (status \<open>quota_exhausted\<close>, \<open>quota_exhausted_at\<close> the current
  time) and leaves the row as it is otherwise. A reclaim run clears both fields together
  when the row is \<open>quota_exhausted\<close> for more than 30 days (status \<open>available\<close>, no
  \<open>quota_exhausted_at\<close>) and leaves the row as it is otherwise. In each case the row
  satisfies the invariant afterwards.
\<close>

theorem quota_inv_preserved:
  assumes "i < length rows" and "quota_inv (rows ! i)"
  shows "(\<exists>ok rows'. mark_account_quota_exhausted (Some rows) now e = (ok, Some rows') \<and>
            length rows' = length rows \<and> quota_inv (rows' ! i) \<and>
            (if email (rows ! i) = e
             then status (rows' ! i) = ''quota_exhausted'' \<and>
                  quota_exhausted_at (rows' ! i) = Some now
             else rows' ! i = rows ! i))
       \<and> (\<exists>n rows'. reset_expired_quotas (Some rows) now = (n, Some rows') \<and>
            length rows' = length rows \<and> quota_inv (rows' ! i) \<and>
            (if status (rows ! i) = ''quota_exhausted'' \<and>
                (\<exists>t. quota_exhausted_at (rows ! i) = Some t \<and>
                     t < now - 30 * microseconds_per_day)
             then status (rows' ! i) = ''available'' \<and>
                  quota_exhausted_at (rows' ! i) = None
             else rows' ! i = rows ! i))"
proof
  have inv: "quota_inv (set_quota_exhausted now (rows ! i))"
    by (simp add: quota_inv_def set_quota_exhausted_def)
  have set: "status (set_quota_exhausted now (rows ! i)) = ''quota_exhausted''"
    "quota_exhausted_at (set_quota_exhausted now (rows ! i)) = Some now"
    by (simp_all add: set_quota_exhausted_def)
  show "\<exists>ok rows'. mark_account_quota_exhausted (Some rows) now e = (ok, Some rows') \<and>
            length rows' = length rows \<and> quota_inv (rows' ! i) \<and>
            (if email (rows ! i) = e
             then status (rows' ! i) = ''quota_exhausted'' \<and>
                  quota_exhausted_at (rows' ! i) = Some now
             else rows' ! i = rows ! i)"
    using assms inv set by (auto simp add: mark_account_quota_exhausted_def Let_def)
next
  let ?P = "quota_expired (now - quota_reset_delta)"
  have P: "?P (rows ! i) =
      (status (rows ! i) = ''quota_exhausted'' \<and>
       (\<exists>t. quota_exhausted_at (rows ! i) = Some t \<and> t < now - 30 * microseconds_per_day))"
    by (auto simp: quota_expired_def quota_reset_delta_def quota_reset_days_def
        split: option.splits)
  have inv: "quota_inv (clear_quota (rows ! i))"
    by (simp add: quota_inv_def clear_quota_def)
  have clr: "status (clear_quota (rows ! i)) = ''available''"
    "quota_exhausted_at (clear_quota (rows ! i)) = None"
    by (simp_all add: clear_quota_def)
  have nth: "map (\<lambda>r. if ?P r then clear_quota r else r) rows ! i =
      (if ?P (rows ! i) then clear_quota (rows ! i) else rows ! i)"
    using assms(1) by simp
  show "\<exists>n rows'. reset_expired_quotas (Some rows) now = (n, Some rows') \<and>
            length rows' = length rows \<and> quota_inv (rows' ! i) \<and>
            (if status (rows ! i) = ''quota_exhausted'' \<and>
                (\<exists>t. quota_exhausted_at (rows ! i) = Some t \<and>
                     t < now - 30 * microseconds_per_day)
             then status (rows' ! i) = ''available'' \<and>
                  quota_exhausted_at (rows' ! i) = None
             else rows' ! i = rows ! i)"
  proof (cases "filter ?P rows = []")
    case True
    then have "\<not> ?P (rows ! i)"
      using assms(1) by (auto simp: filter_empty_conv)
    moreover have "reset_expired_quotas (Some rows) now = (0, Some rows)"
      using True by (simp add: reset_expired_quotas_def Let_def)
    ultimately show ?thesis
      using assms(2) unfolding P by simp
  next
    case False
    then have res: "reset_expired_quotas (Some rows) now =
        (length (filter ?P rows), Some (map (\<lambda>r. if ?P r then clear_quota r else r) rows))"
      by (simp add: reset_expired_quotas_def Let_def)
    let ?rows' = "map (\<lambda>r. if ?P r then clear_quota r else r) rows"
    show ?thesis
    proof (cases "?P (rows ! i)")
      case True
      then have r: "?rows' ! i = clear_quota (rows ! i)"
        using nth by simp
      from True have Q: "status (rows ! i) = ''quota_exhausted'' \<and>
          (\<exists>t. quota_exhausted_at (rows ! i) = Some t \<and> t < now - 30 * microseconds_per_day)"
        using P by blast
      show ?thesis
      proof (intro exI conjI)
        show "reset_expired_quotas (Some rows) now = (length (filter ?P rows), Some ?rows')"
          by (rule res)
        show "length ?rows' = length rows" by simp
        show "quota_inv (?rows' ! i)" using inv by (simp only: r)
        show "if status (rows ! i) = ''quota_exhausted'' \<and>
                (\<exists>t. quota_exhausted_at (rows ! i) = Some t \<and>
                     t < now - 30 * microseconds_per_day)
             then status (?rows' ! i) = ''available'' \<and>
                  quota_exhausted_at (?rows' ! i) = None
             else ?rows' ! i = rows ! i"
          using clr by (simp only: Q r if_True simp_thms)
      qed
    next
      case False
      then have r: "?rows' ! i = rows ! i"
        using nth by simp
      from False have Q: "\<not> (status (rows ! i) = ''quota_exhausted'' \<and>
          (\<exists>t. quota_exhausted_at (rows ! i) = Some t \<and> t < now - 30 * microseconds_per_day))"
        using P by blast
      show ?thesis
      proof (intro exI conjI)
        show "reset_expired_quotas (Some rows) now = (length (filter ?P rows), Some ?rows')"
          by (rule res)
        show "length ?rows' = length rows" by simp
        show "quota_inv (?rows' ! i)" using assms(2) by (simp only: r)
        show "if status (rows ! i) = ''quota_exhausted'' \<and>
                (\<exists>t. quota_exhausted_at (rows ! i) = Some t \<and>
                     t < now - 30 * microseconds_per_day)
             then status (?rows' ! i) = ''available'' \<and>
                  quota_exhausted_at (?rows' ! i) = None
             else ?rows' ! i = rows ! i"
          using r by (simp only: if_not_P [OF Q])
      qed
    qed
  qed
qed

theorem quota_inv_preserved_witness:
  "quota_inv (sample_account ''a@x.io'' ''in_use'' (Some ''s-1'') None)
   \<and> mark_account_quota_exhausted
        (Some [sample_account ''a@x.io'' ''in_use'' (Some ''s-1'') None]) 7 ''a@x.io''
     = (True, Some [sample_account ''a@x.io'' ''quota_exhausted'' None (Some 7)])
   \<and> quota_inv (sample_account ''a@x.io'' ''quota_exhausted'' None (Some 7))
   \<and> quota_inv (sample_account ''b@x.io'' ''quota_exhausted'' None (Some 0))
   \<and> reset_expired_quotas
        (Some [sample_account ''b@x.io'' ''quota_exhausted'' None (Some 0)]) 2592000000001
     = (1, Some [sample_account ''b@x.io'' ''available'' None None])
   \<and> quota_inv (sample_account ''b@x.io'' ''available'' None None)"
proof -
  let ?a = "[sample_account ''a@x.io'' ''in_use'' (Some ''s-1'') None]"
  let ?b = "[sample_account ''b@x.io'' ''quota_exhausted'' None (Some 0)]"
  have a1: "0 < length ?a" by simp
  have a2: "quota_inv (?a ! 0)"
    by (simp add: quota_inv_def sample_account_def Account_def)
  have b1: "0 < length ?b" by simp
  have b2: "quota_inv (?b ! 0)"
    by (simp add: quota_inv_def sample_account_def Account_def)
  from a2 b2 quota_inv_preserved [OF a1 a2, of 7 "''a@x.io''"]
       quota_inv_preserved [OF b1 b2, of 2592000000001 "''a@x.io''"]
  show ?thesis
    by (simp add: mark_account_quota_exhausted_def set_quota_exhausted_def
        reset_expired_quotas_def quota_expired_def quota_reset_delta_def quota_reset_days_def
        microseconds_per_day_def clear_quota_def quota_inv_def sample_account_def Account_def)
qed

text \<open>
  A request that names no email (the key is missing or its value is empty) is refused with
  \<open>HTTPException(400)\<close> by the first lines of the handler, before the mark operation is
  called.
\<close>

lemma mark_quota_exhausted_without_email:
  assumes "request ''email'' = None \<or> request ''email'' = Some []"
  shows "mark_quota_exhausted db now request = (Inl (HTTPException 400), db)"
  using assms by (auto simp: mark_quota_exhausted_def)

text \<open>
  C8. Marking an email that is in no row of the accounts table returns false and leaves the
  database as it is, without an exception; the endpoint, given a request that names such
  an email, answers \<open>success = False\<close> and leaves the database as it is, without an
  exception.
\<close>

theorem mark_unknown_email:
  assumes "e \<notin> emails_of db"
  shows "mark_account_quota_exhausted db now e = (False, db)
       \<and> (e \<noteq> [] \<longrightarrow> request ''email'' = Some e \<longrightarrow>
            mark_quota_exhausted db now request =
              (Inr \<lparr>mark_success = False, mark_message = MarkFailed e\<rparr>, db))"
proof -
  have m: "mark_account_quota_exhausted db now e = (False, db)"
  proof (cases db)
    case None
    then show ?thesis by (simp add: mark_account_quota_exhausted_def)
  next
    case (Some rows)
    with assms have no: "\<forall>r\<in>set rows. \<not> email r = e"
      by (auto simp: emails_of_def)
    then have "filter (\<lambda>r. email r = e) rows = []"
      by (simp add: filter_empty_conv)
    moreover have "map (\<lambda>r. if email r = e then set_quota_exhausted now r else r) rows = rows"
      using no by (rule map_if_none)
    ultimately show ?thesis using Some
      by (simp add: mark_account_quota_exhausted_def Let_def)
  qed
  then show ?thesis by (simp add: mark_quota_exhausted_def)
qed

theorem mark_unknown_email_witness:
  "mark_account_quota_exhausted
     (Some [sample_account ''a@x.io'' ''in_use'' (Some ''s-1'') None]) 7 ''z@x.io''
   = (False, Some [sample_account ''a@x.io'' ''in_use'' (Some ''s-1'') None])
   \<and> mark_quota_exhausted
     (Some [sample_account ''a@x.io'' ''in_use'' (Some ''s-1'') None]) 7 [''email'' \<mapsto> ''z@x.io'']
   = (Inr \<lparr>mark_success = False, mark_message = MarkFailed ''z@x.io''\<rparr>,
      Some [sample_account ''a@x.io'' ''in_use'' (Some ''s-1'') None])"
proof -
  let ?db = "Some [sample_account ''a@x.io'' ''in_use'' (Some ''s-1'') None]"
  have h: "''z@x.io'' \<notin> emails_of ?db"
    by (simp add: emails_of_def sample_account_def Account_def)
  from mark_unknown_email [OF h, of 7 "[''email'' \<mapsto> ''z@x.io'']"] show ?thesis
    by simp
qed

section \<open>The replenishment pass\<close>

text \<open>
  C1 does not hold of the code. An attempt that runs for 400 seconds, beyond the time-out of
  300 seconds, is not abandoned: the pass waits for it, its account row is written to the
  store, and it is counted as a success.
\<close>

theorem slow_attempt_is_saved:
  "300 < att_duration (sample_attempt 400) \<and>
   register_accounts_concurrent (Some []) [sample_attempt 400] =
     ([\<lparr>res_success = True, res_index = 1, res_email = Some ''a@x.io'',
        res_local_id = Some ''uid-a'', res_request_limit = Some 150, res_error = None,
        res_duration = Some 400\<rparr>],
      \<lparr>success_count = 1, failed_count = 0, high_quota_count = 0, normal_quota_count = 1\<rparr>,
      Some [Account ''a@x.io'' ''uid-a'' ''idt-a'' ''rt-a'' ''available''])"
  by (simp add: register_accounts_concurrent_def register_single_account_def sample_attempt_def
      sample_registration_def sample_tokens_def activate_warp_user_def get_request_limit_def
      add_account_def future_result_def Let_def)

subsection \<open>Counting a pass\<close>






text \<open>
  When the limit query answers \<open>None\<close>, the attempt is reported as failed although
  registration and activation succeeded, and the add is not reached.
\<close>

lemma limit_none_fails_before_add:
  assumes "att_registrar att = Registered result"
    and "reg_success result"
    and "reg_final_tokens result = Some ft"
    and "ft_id_token ft \<noteq> []"
    and "att_activation att = Activated"
    and "att_limit att = NoLimitInfo"
  shows "register_single_account db att = (failure_result att None RegistrationException, db)"
  using assms
  by (simp add: register_single_account_def activate_warp_user_def get_request_limit_def)



section \<open>The allocate endpoint\<close>

text \<open>
  The handler never reads \<open>request.count\<close>: two requests that differ in the count only get
  the same answer.
\<close>

lemma allocate_accounts_count_irrelevant:
  "allocate_accounts pm (request\<lparr>req_count := k\<rparr>) = allocate_accounts pm request"
proof -
  have "req_session_id (request\<lparr>req_count := k\<rparr>) = req_session_id request"
    by simp
  then show ?thesis
    unfolding allocate_accounts_def by (simp only:)
qed

text \<open>
  C3 does not hold of the code. A request for two accounts, served by a pool manager that
  hands out one account, is answered with \<open>success = True\<close> and that single account.
\<close>

theorem allocate_ignores_count:
  "allocate_accounts (Some sample_pool_manager) \<lparr>req_session_id = None, req_count = Some 2\<rparr>
   = Inr \<lparr>resp_success = True, resp_session_id = ''s-1'',
          resp_accounts = [to_account_info (sample_account ''a@x.io'' ''in_use'' (Some ''s-1'') None)],
          resp_message = Some (Allocated 1)\<rparr>"
  by (simp add: allocate_accounts_def sample_pool_manager_def sample_account_def Account_def)

section \<open>The broker\<close>

subsection \<open>Auxiliary facts\<close>

lemma is_session_valid_iff:
  "fst (is_session_valid cfg now s b) =
     (now - sess_created_at s \<le> 1800 \<and> sess_access_token s \<noteq> [] \<and>
      (case is_token_expired cfg (sess_access_token s) of
         Some expired \<Rightarrow> \<not> expired
       | None \<Rightarrow> info_id_token (sess_account s) = [] \<or>
                 is_token_expired cfg (info_id_token (sess_account s)) \<noteq> Some True))"
  by (auto simp: is_session_valid_def Let_def split: option.splits bool.splits)

lemma is_session_valid_False: "\<not> fst (is_session_valid cfg now s b) \<Longrightarrow> snd (is_session_valid cfg now s b) = b"
  by (auto simp: is_session_valid_def Let_def split: option.splits bool.splits if_splits)

lemma acquire_check_hit:
  "current_session b = Some s \<Longrightarrow> fst (is_session_valid cfg now s b) \<Longrightarrow>
   acquire_check cfg now b =
     (Some (sess_access_token s), snd (is_session_valid cfg now s b), [LockAcquire, LockRelease])"
  by (cases "is_session_valid cfg now s b") (auto simp: acquire_check_def)

lemma acquire_check_miss:
  "current_session b = None \<or> (\<exists>s. current_session b = Some s \<and> \<not> fst (is_session_valid cfg now s b)) \<Longrightarrow>
   acquire_check cfg now b = (None, b, [LockAcquire, LockRelease])"
proof (cases "current_session b")
  case None
  then show ?thesis by (simp add: acquire_check_def)
next
  case (Some s)
  assume "current_session b = None \<or> (\<exists>s. current_session b = Some s \<and> \<not> fst (is_session_valid cfg now s b))"
  with Some have nv: "\<not> fst (is_session_valid cfg now s b)" by simp
  then have "snd (is_session_valid cfg now s b) = b" by (rule is_session_valid_False)
  with nv Some show ?thesis
    by (cases "is_session_valid cfg now s b") (auto simp: acquire_check_def)
qed

lemma token_events_no_allocate:
  "allocate_requests (snd (get_access_token_from_account account reply)) = 0"
  by (auto simp: get_access_token_from_account_def allocate_requests_def split: http_reply.splits)

lemma acquire_allocate_shape:
  "\<exists>r b' evs. acquire_allocate cfg now allocation refresh b =
       (r, b', AllocateRequest (accounts_per_request cfg) # evs) \<and>
     allocate_requests evs = 0 \<and>
     (\<forall>token. r = Inr token \<longrightarrow>
        (\<exists>data. allocation = Reply 200 data \<and> body_success data \<and> body_accounts data \<noteq> [] \<and>
           fst (get_access_token_from_account (hd (body_accounts data)) refresh) = Inr token))"
proof (cases allocation)
  case RequestFailed
  then show ?thesis by (simp add: acquire_allocate_def allocate_requests_def)
next
  case (Reply code data)
  show ?thesis
  proof (cases "code = 200 \<and> body_success data \<and> body_accounts data \<noteq> []")
    case False
    then show ?thesis using Reply
      by (auto simp add: acquire_allocate_def allocate_requests_def Let_def)
  next
    case True
    obtain r evs where g: "get_access_token_from_account (hd (body_accounts data)) refresh = (r, evs)"
      by (cases "get_access_token_from_account (hd (body_accounts data)) refresh")
    have z: "allocate_requests evs = 0"
      using token_events_no_allocate [of "hd (body_accounts data)" refresh] g by simp
    show ?thesis
    proof (cases r)
      case (Inl err)
      then show ?thesis using Reply True g z
        by (simp add: acquire_allocate_def Let_def)
    next
      case (Inr token)
      then show ?thesis using Reply True g z
        by (auto simp add: acquire_allocate_def Let_def allocate_requests_def)
    qed
  qed
qed


lemma acquire_check_None:
  "fst (acquire_check cfg now b) = None \<Longrightarrow>
   acquire_check cfg now b = (None, b, [LockAcquire, LockRelease])"
proof (rule acquire_check_miss, cases "current_session b")
  case None
  then show "current_session b = None \<or>
      (\<exists>s. current_session b = Some s \<and> \<not> fst (is_session_valid cfg now s b))" by simp
next
  case (Some s)
  assume "fst (acquire_check cfg now b) = None"
  with Some have "\<not> fst (is_session_valid cfg now s b)"
    by (cases "is_session_valid cfg now s b") (auto simp: acquire_check_def)
  with Some show "current_session b = None \<or>
      (\<exists>s. current_session b = Some s \<and> \<not> fst (is_session_valid cfg now s b))" by simp
qed

lemma token_not_empty:
  "fst (get_access_token_from_account account reply) = Inr token \<Longrightarrow> token \<noteq> []"
  by (auto simp: get_access_token_from_account_def Let_def split: if_splits http_reply.splits)

lemma acquire_allocate_stores:
  assumes "acquire_allocate cfg now allocation refresh b = (Inr token, b', evs)"
  shows "\<exists>s. current_session b' = Some s \<and> sess_access_token s = token \<and>
             sess_created_at s = now \<and> token \<noteq> []"
proof -
  from assms obtain code data where r: "allocation = Reply code data"
    by (cases allocation) (simp_all add: acquire_allocate_def)
  from assms r have ok: "code = 200" "body_success data" "body_accounts data \<noteq> []"
    by (auto simp: acquire_allocate_def Let_def split: if_splits)
  obtain res tevs where g:
    "get_access_token_from_account (hd (body_accounts data)) refresh = (res, tevs)"
    by (cases "get_access_token_from_account (hd (body_accounts data)) refresh")
  from assms r ok g have res: "res = Inr token"
    by (cases res) (auto simp: acquire_allocate_def Let_def split: if_splits)
  then have ne: "token \<noteq> []"
    using token_not_empty [of "hd (body_accounts data)" refresh token] g by simp
  from assms r ok g res show ?thesis using ne
    by (auto simp: acquire_allocate_def Let_def split: if_splits)
qed

lemma acquire_store_total:
  assumes "current_account b = Some account"
  shows "\<exists>r b'. acquire_store cfg now data token b =
             Some (r, b', [LockAcquire, LockRelease, UpdateEnv token]) \<and>
           current_account b' = Some account"
  using assms by (simp add: acquire_store_def Let_def)

lemma acquire_receive_total:
  "\<exists>p b' evs. acquire_receive cfg now allocation refresh b = Some (p, b', evs) \<and>
     allocate_requests evs = 0 \<and>
     (current_account b \<noteq> None \<longrightarrow> current_account b' \<noteq> None) \<and>
     (\<forall>data result. p = AwaitsToken data result \<longrightarrow> current_account b' \<noteq> None)"
proof (cases allocation)
  case RequestFailed
  then show ?thesis by (simp add: acquire_receive_def allocate_requests_def)
next
  case (Reply code data)
  show ?thesis
  proof (cases "code = 200 \<and> body_success data \<and> body_accounts data \<noteq> []")
    case False
    then show ?thesis using Reply
      by (auto simp add: acquire_receive_def allocate_requests_def)
  next
    case True
    let ?b1 = "b\<lparr>accounts := body_accounts data, account_index := 0,
                   current_account := Some (hd (body_accounts data))\<rparr>"
    obtain result evs where g:
      "get_access_token_from_account (hd (body_accounts data)) refresh = (result, evs)"
      by (cases "get_access_token_from_account (hd (body_accounts data)) refresh")
    have z: "allocate_requests evs = 0"
      using token_events_no_allocate [of "hd (body_accounts data)" refresh] g by simp
    show ?thesis
    proof (cases "evs = []")
      case False
      then show ?thesis using Reply True g z
        by (simp add: acquire_receive_def Let_def)
    next
      case nil: True
      show ?thesis
      proof (cases result)
        case (Inl err)
        then show ?thesis using Reply True g nil
          by (simp add: acquire_receive_def Let_def allocate_requests_def)
      next
        case (Inr token)
        have ca: "current_account ?b1 = Some (hd (body_accounts data))" by simp
        from acquire_store_total [OF ca, of cfg now data token]
        obtain r b' where st:
          "acquire_store cfg now data token ?b1 =
             Some (r, b', [LockAcquire, LockRelease, UpdateEnv token])"
          "current_account b' = Some (hd (body_accounts data))"
          by blast
        then show ?thesis using Reply True g nil Inr
          by (simp add: acquire_receive_def Let_def allocate_requests_def)
      qed
    qed
  qed
qed

lemma acquire_resume_total:
  assumes "\<forall>data result. p = AwaitsToken data result \<longrightarrow> current_account b \<noteq> None"
  shows "\<exists>outcome b' evs. acquire_resume cfg now p b = Some (outcome, b', evs) \<and>
           allocate_requests evs = 0 \<and> current_account b' = current_account b"
proof (cases p)
  case (Returned r returned)
  then show ?thesis by (simp add: acquire_resume_def allocate_requests_def)
next
  case (AwaitsToken data result)
  with assms obtain account where ca: "current_account b = Some account" by auto
  show ?thesis
  proof (cases result)
    case (Inl err)
    then show ?thesis using AwaitsToken
      by (simp add: acquire_resume_def allocate_requests_def)
  next
    case (Inr token)
    from acquire_store_total [OF ca, of cfg now data token]
    obtain r b' where
      "acquire_store cfg now data token b =
         Some (r, b', [LockAcquire, LockRelease, UpdateEnv token])"
      "current_account b' = Some account"
      by blast
    then show ?thesis using AwaitsToken Inr ca
      by (simp add: acquire_resume_def allocate_requests_def)
  qed
qed

text \<open>Run without a break, the two pieces are the tail of \<open>acquire_allocate\<close>.\<close>

lemma acquire_allocate_pieces:
  "\<exists>p b1 evs1 r b2 evs2.
     acquire_receive cfg now allocation refresh b = Some (p, b1, evs1) \<and>
     acquire_resume cfg now p b1 = Some ((r, b2), b2, evs2) \<and>
     acquire_allocate cfg now allocation refresh b =
       (r, b2, AllocateRequest (accounts_per_request cfg) # evs1 @ evs2)"
proof (cases allocation)
  case RequestFailed
  then show ?thesis
    by (simp add: acquire_receive_def acquire_resume_def acquire_allocate_def)
next
  case (Reply code data)
  show ?thesis
  proof (cases "code = 200 \<and> body_success data \<and> body_accounts data \<noteq> []")
    case False
    then show ?thesis using Reply
      by (auto simp add: acquire_receive_def acquire_resume_def acquire_allocate_def Let_def)
  next
    case True
    obtain result evs where g:
      "get_access_token_from_account (hd (body_accounts data)) refresh = (result, evs)"
      by (cases "get_access_token_from_account (hd (body_accounts data)) refresh")
    show ?thesis
    proof (cases result)
      case (Inl err)
      then show ?thesis using Reply True g
        by (cases "evs = []")
          (simp_all add: acquire_receive_def acquire_resume_def acquire_allocate_def Let_def)
    next
      case (Inr token)
      then show ?thesis using Reply True g
        by (cases "evs = []"; cases "update_env_file cfg token")
          (simp_all add: acquire_receive_def acquire_resume_def acquire_allocate_def
            acquire_store_def Let_def)
    qed
  qed
qed

lemma two_acquires_both_miss:
  assumes "fst (acquire_check cfg now b) = None"
  shows "\<exists>outcome1 outcome2 evs.
           two_acquires_interleaved cfg now allocation refresh allocation' refresh' b =
             Some (outcome1, outcome2, evs) \<and>
           allocate_requests evs = 2"
proof -
  from assms have check: "acquire_check cfg now b = (None, b, [LockAcquire, LockRelease])"
    by (rule acquire_check_None)
  obtain p1 b3 evs3 where r1:
    "acquire_receive cfg now allocation refresh b = Some (p1, b3, evs3)"
    "allocate_requests evs3 = 0"
    "\<forall>data result. p1 = AwaitsToken data result \<longrightarrow> current_account b3 \<noteq> None"
    using acquire_receive_total [of cfg now allocation refresh b] by blast
  obtain p2 b4 evs4 where r2:
    "acquire_receive cfg now allocation' refresh' b3 = Some (p2, b4, evs4)"
    "allocate_requests evs4 = 0"
    "current_account b3 \<noteq> None \<longrightarrow> current_account b4 \<noteq> None"
    "\<forall>data result. p2 = AwaitsToken data result \<longrightarrow> current_account b4 \<noteq> None"
    using acquire_receive_total [of cfg now allocation' refresh' b3] by blast
  have "\<forall>data result. p1 = AwaitsToken data result \<longrightarrow> current_account b4 \<noteq> None"
    using r1(3) r2(3) by blast
  from acquire_resume_total [OF this, of cfg now]
  obtain outcome1 b5 evs5 where s1:
    "acquire_resume cfg now p1 b4 = Some (outcome1, b5, evs5)"
    "allocate_requests evs5 = 0" "current_account b5 = current_account b4"
    by blast
  have "\<forall>data result. p2 = AwaitsToken data result \<longrightarrow> current_account b5 \<noteq> None"
    using r2(4) s1(3) by simp
  from acquire_resume_total [OF this, of cfg now]
  obtain outcome2 b6 evs6 where s2:
    "acquire_resume cfg now p2 b5 = Some (outcome2, b6, evs6)"
    "allocate_requests evs6 = 0"
    by blast
  let ?send = "[AllocateRequest (accounts_per_request cfg)]"
  let ?evs = "[LockAcquire, LockRelease] @ ?send @ [LockAcquire, LockRelease] @ ?send @
              evs3 @ evs4 @ evs5 @ evs6"
  have "two_acquires_interleaved cfg now allocation refresh allocation' refresh' b =
          Some (outcome1, outcome2, ?evs)"
    using check r1(1) r2(1) s1(1) s2(1) by (simp add: two_acquires_interleaved_def Let_def)
  moreover have "allocate_requests ?evs = 2"
    using r1(2) r2(2) s1(2) s2(2) by (simp add: allocate_requests_def)
  ultimately show ?thesis by blast
qed

subsection \<open>Acquiring a token\<close>

text \<open>
  C7, as stated, fails at the boundary of the TTL: a cached session whose age is exactly
  1800 seconds is not below the TTL, yet its token is returned and no allocation is
  requested (the test is \<open>time.time() - created_at > 1800\<close>).
\<close>

theorem acquire_at_ttl_boundary:
  "\<not> (1800 - sess_created_at (sample_session ''s-1'' 0) < 1800)
   \<and> is_token_expired sample_config (sess_access_token (sample_session ''s-1'' 0)) = Some False
   \<and> fst (acquire_pool_access_token sample_config 1800
            (sample_allocation ''s-2'' ''b@x.io'') (sample_refresh ''at-2'')
            (initial_broker\<lparr>current_session := Some (sample_session ''s-1'' 0)\<rparr>))
       = Inr ''at-0''
   \<and> allocate_requests (snd (snd (acquire_pool_access_token sample_config 1800
            (sample_allocation ''s-2'' ''b@x.io'') (sample_refresh ''at-2'')
            (initial_broker\<lparr>current_session := Some (sample_session ''s-1'' 0)\<rparr>)))) = 0"
  by (simp add: sample_defs broker_defs)

text \<open>
  C7, amended. If a cached session exists whose age is at most 1800 seconds, whose access
  token is not empty and is not expired (where the expiry test raises on the access token:
  the account has no id token, or its id token is not reported expired), the cached token
  is returned and nothing is requested. Otherwise exactly one allocation request, for
  \<open>ACCOUNTS_PER_REQUEST\<close> accounts, is sent to the pool service, and a token that is returned
  is the one derived from the first account of the reply.
\<close>

theorem acquire_reuse_or_allocate:
  "(let reusable =
          (case current_session b of
             None \<Rightarrow> False
           | Some s \<Rightarrow>
               now - sess_created_at s \<le> 1800 \<and> sess_access_token s \<noteq> [] \<and>
               (case is_token_expired cfg (sess_access_token s) of
                  Some expired \<Rightarrow> \<not> expired
                | None \<Rightarrow> info_id_token (sess_account s) = [] \<or>
                          is_token_expired cfg (info_id_token (sess_account s)) \<noteq> Some True))
    in (reusable \<longrightarrow>
          (\<exists>s b'. current_session b = Some s \<and>
                  acquire_pool_access_token cfg now allocation refresh b =
                    (Inr (sess_access_token s), b', [LockAcquire, LockRelease])))
     \<and> (\<not> reusable \<longrightarrow>
          (\<exists>r b' evs. acquire_pool_access_token cfg now allocation refresh b = (r, b', evs) \<and>
                      allocate_requests evs = 1 \<and>
                      AllocateRequest (accounts_per_request cfg) \<in> set evs \<and>
                      (\<forall>token. r = Inr token \<longrightarrow>
                         (\<exists>data. allocation = Reply 200 data \<and> body_success data \<and>
                                 body_accounts data \<noteq> [] \<and>
                                 fst (get_access_token_from_account
                                        (hd (body_accounts data)) refresh) = Inr token)))))"
proof -
  define reusable where "reusable =
          (case current_session b of
             None \<Rightarrow> False
           | Some s \<Rightarrow>
               now - sess_created_at s \<le> 1800 \<and> sess_access_token s \<noteq> [] \<and>
               (case is_token_expired cfg (sess_access_token s) of
                  Some expired \<Rightarrow> \<not> expired
                | None \<Rightarrow> info_id_token (sess_account s) = [] \<or>
                          is_token_expired cfg (info_id_token (sess_account s)) \<noteq> Some True))"
  have hit: "\<exists>s b'. current_session b = Some s \<and>
                  acquire_pool_access_token cfg now allocation refresh b =
                    (Inr (sess_access_token s), b', [LockAcquire, LockRelease])"
    if "reusable"
  proof -
    from that obtain s where s: "current_session b = Some s"
      by (cases "current_session b") (simp_all add: reusable_def)
    with that have "fst (is_session_valid cfg now s b)"
      by (simp add: reusable_def is_session_valid_iff)
    then have "acquire_check cfg now b =
        (Some (sess_access_token s), snd (is_session_valid cfg now s b), [LockAcquire, LockRelease])"
      using s by (simp add: acquire_check_hit)
    then show ?thesis using s by (simp add: acquire_pool_access_token_def)
  qed
  have miss: "\<exists>r b' evs. acquire_pool_access_token cfg now allocation refresh b = (r, b', evs) \<and>
                      allocate_requests evs = 1 \<and>
                      AllocateRequest (accounts_per_request cfg) \<in> set evs \<and>
                      (\<forall>token. r = Inr token \<longrightarrow>
                         (\<exists>data. allocation = Reply 200 data \<and> body_success data \<and>
                                 body_accounts data \<noteq> [] \<and>
                                 fst (get_access_token_from_account
                                        (hd (body_accounts data)) refresh) = Inr token))"
    if "\<not> reusable"
  proof -
    from that have "current_session b = None \<or>
        (\<exists>s. current_session b = Some s \<and> \<not> fst (is_session_valid cfg now s b))"
      by (cases "current_session b") (simp_all add: reusable_def is_session_valid_iff)
    then have check: "acquire_check cfg now b = (None, b, [LockAcquire, LockRelease])"
      by (rule acquire_check_miss)
    obtain r b' evs where alloc:
      "acquire_allocate cfg now allocation refresh b =
         (r, b', AllocateRequest (accounts_per_request cfg) # evs)"
      "allocate_requests evs = 0"
      "\<forall>token. r = Inr token \<longrightarrow>
          (\<exists>data. allocation = Reply 200 data \<and> body_success data \<and> body_accounts data \<noteq> [] \<and>
             fst (get_access_token_from_account (hd (body_accounts data)) refresh) = Inr token)"
      using acquire_allocate_shape [of cfg now allocation refresh b] by blast
    show ?thesis
      using check alloc by (simp add: acquire_pool_access_token_def allocate_requests_def)
  qed
  show ?thesis
    unfolding Let_def reusable_def [symmetric] using hit miss by blast
qed

theorem acquire_reuse_or_allocate_witness:
  "acquire_pool_access_token sample_config 1800
      (sample_allocation ''s-2'' ''b@x.io'') (sample_refresh ''at-2'')
      (initial_broker\<lparr>current_session := Some (sample_session ''s-1'' 0)\<rparr>)
     = (Inr ''at-0'',
        initial_broker\<lparr>current_session := Some (sample_session ''s-1'' 0),
                        current_account := Some (sample_info ''s-1'' ''a@x.io''),
                        accounts := [sample_info ''s-1'' ''a@x.io'']\<rparr>,
        [LockAcquire, LockRelease])
   \<and> fst (acquire_pool_access_token sample_config 1801
      (sample_allocation ''s-2'' ''b@x.io'') (sample_refresh ''at-2'')
      (initial_broker\<lparr>current_session := Some (sample_session ''s-1'' 0)\<rparr>)) = Inr ''at-2''
   \<and> snd (snd (acquire_pool_access_token sample_config 1801
      (sample_allocation ''s-2'' ''b@x.io'') (sample_refresh ''at-2'')
      (initial_broker\<lparr>current_session := Some (sample_session ''s-1'' 0)\<rparr>)))
     = [LockAcquire, LockRelease, AllocateRequest 1, RefreshRequest ''rt'',
        LockAcquire, LockRelease, UpdateEnv ''at-2'']"
  using acquire_reuse_or_allocate [where b = "initial_broker\<lparr>current_session := Some (sample_session ''s-1'' 0)\<rparr>"
      and now = 1800 and cfg = sample_config and allocation = "sample_allocation ''s-2'' ''b@x.io''"
      and refresh = "sample_refresh ''at-2''"]
    acquire_reuse_or_allocate [where b = "initial_broker\<lparr>current_session := Some (sample_session ''s-1'' 0)\<rparr>"
      and now = 1801 and cfg = sample_config and allocation = "sample_allocation ''s-2'' ''b@x.io''"
      and refresh = "sample_refresh ''at-2''"]
  by (simp add: sample_defs broker_defs)

subsection \<open>Releasing the session\<close>

text \<open>
  C10, as stated, fails for a cached session without session id: a reply of the pool service
  that allocates an account but names no session is cached by \<open>acquire_pool_access_token\<close>,
  and \<open>release_current_session\<close> then returns at \<open>if not session_id\<close> with the cache and the
  fields as they were.
\<close>

theorem release_keeps_session_without_id:
  "fst (acquire_pool_access_token sample_config 0 (sample_allocation [] ''a@x.io'')
          (sample_refresh ''at-1'') initial_broker) = Inr ''at-1''
   \<and> fst (release_current_session (Reply 200 ())
            (fst (snd (acquire_pool_access_token sample_config 0 (sample_allocation [] ''a@x.io'')
                         (sample_refresh ''at-1'') initial_broker))))
     = fst (snd (acquire_pool_access_token sample_config 0 (sample_allocation [] ''a@x.io'')
                         (sample_refresh ''at-1'') initial_broker))
   \<and> snd (release_current_session (Reply 200 ())
            (fst (snd (acquire_pool_access_token sample_config 0 (sample_allocation [] ''a@x.io'')
                         (sample_refresh ''at-1'') initial_broker))))
     = [LockAcquire, LockRelease]
   \<and> access_token (fst (release_current_session (Reply 200 ())
            (fst (snd (acquire_pool_access_token sample_config 0 (sample_allocation [] ''a@x.io'')
                         (sample_refresh ''at-1'') initial_broker))))) = Some ''at-1''
   \<and> current_session (fst (release_current_session (Reply 200 ())
            (fst (snd (acquire_pool_access_token sample_config 0 (sample_allocation [] ''a@x.io'')
                         (sample_refresh ''at-1'') initial_broker))))) \<noteq> None"
  by (simp add: sample_defs broker_defs release_current_session_def)

text \<open>
  C10, amended. After a call of release that finds a cached session with a session id, the
  session cache is empty and the fields of the broker (session id, current account,
  accounts, account index, access token) are cleared, whatever the status of the reply of
  the pool service, and also when the request raises. For a cached session whose session
  id is missing or empty the call returns at once: it sends no request and leaves the
  cache and the fields as they are.
\<close>

theorem release_clears_session:
  assumes "current_session b = Some s"
  shows "(sess_session_id s \<noteq> [] \<longrightarrow>
            release_current_session reply b =
              (b\<lparr>current_session := None, current_session_id := None, current_account := None,
                 accounts := [], account_index := 0, access_token := None\<rparr>,
               [LockAcquire, ReleaseRequest (sess_session_id s), LockRelease]))
       \<and> (sess_session_id s = [] \<longrightarrow>
            release_current_session reply b = (b, [LockAcquire, LockRelease]))"
  using assms by (cases reply) (simp_all add: release_current_session_def clear_session_def)

theorem release_clears_session_witness:
  "release_current_session (Reply 500 ())
     (initial_broker\<lparr>current_session := Some (sample_session ''s-1'' 0),
                     current_session_id := Some ''s-1'',
                     current_account := Some (sample_info ''s-1'' ''a@x.io''),
                     accounts := [sample_info ''s-1'' ''a@x.io''],
                     access_token := Some ''at-0''\<rparr>)
   = (initial_broker, [LockAcquire, ReleaseRequest ''s-1'', LockRelease])
   \<and> release_current_session RequestFailed
     (initial_broker\<lparr>current_session := Some (sample_session ''s-1'' 0),
                     current_session_id := Some ''s-1'',
                     current_account := Some (sample_info ''s-1'' ''a@x.io''),
                     accounts := [sample_info ''s-1'' ''a@x.io''],
                     access_token := Some ''at-0''\<rparr>)
   = (initial_broker, [LockAcquire, ReleaseRequest ''s-1'', LockRelease])
   \<and> release_current_session RequestFailed
     (initial_broker\<lparr>current_session := Some (sample_session [] 0),
                     access_token := Some ''at-0''\<rparr>)
   = (initial_broker\<lparr>current_session := Some (sample_session [] 0),
                     access_token := Some ''at-0''\<rparr>, [LockAcquire, LockRelease])"
proof -
  let ?b = "initial_broker\<lparr>current_session := Some (sample_session ''s-1'' 0),
                     current_session_id := Some ''s-1'',
                     current_account := Some (sample_info ''s-1'' ''a@x.io''),
                     accounts := [sample_info ''s-1'' ''a@x.io''],
                     access_token := Some ''at-0''\<rparr>"
  let ?c = "initial_broker\<lparr>current_session := Some (sample_session [] 0),
                     access_token := Some ''at-0''\<rparr>"
  have h1: "current_session ?b = Some (sample_session ''s-1'' 0)" by simp
  have h2: "current_session ?c = Some (sample_session [] 0)" by simp
  from release_clears_session [OF h1, of "Reply 500 ()"]
       release_clears_session [OF h1, of RequestFailed]
       release_clears_session [OF h2, of RequestFailed]
  show ?thesis
    by (simp add: initial_broker_def sample_session_def)
qed

subsection \<open>The lock and concurrent calls\<close>

text \<open>
  C2, as stated, fails: \<open>acquire_pool_access_token\<close> sends its allocation request after it has
  left the lock, and of two calls started together on an empty cache each sends its own
  allocation request and returns its own token. (The session that the first call stores
  has the accounts of the first reply and, as \<open>account\<close>, the first account of the second.)
\<close>

theorem concurrent_acquires_allocate_twice:
  "unlocked_requests False (snd (snd (acquire_pool_access_token sample_config 0
       (sample_allocation ''s-1'' ''a@x.io'') (sample_refresh ''at-1'') initial_broker)))
     = [AllocateRequest 1, RefreshRequest ''rt'']
   \<and> two_acquires_interleaved sample_config 0
       (sample_allocation ''s-1'' ''a@x.io'') (sample_refresh ''at-1'')
       (sample_allocation ''s-2'' ''b@x.io'') (sample_refresh ''at-2'') initial_broker
     = Some ((Inr ''at-1'',
              initial_broker
                \<lparr>current_session :=
                   Some \<lparr>sess_session_id = ''s-1'',
                         sess_accounts = [sample_info ''s-1'' ''a@x.io''],
                         sess_account = sample_info ''s-2'' ''b@x.io'',
                         sess_account_index = 0,
                         sess_access_token = ''at-1'',
                         sess_created_at = 0\<rparr>,
                 current_session_id := Some ''s-1'',
                 current_account := Some (sample_info ''s-2'' ''b@x.io''),
                 accounts := [sample_info ''s-2'' ''b@x.io''],
                 access_token := Some ''at-1''\<rparr>),
             (Inr ''at-2'',
              initial_broker
                \<lparr>current_session :=
                   Some \<lparr>sess_session_id = ''s-2'',
                         sess_accounts = [sample_info ''s-2'' ''b@x.io''],
                         sess_account = sample_info ''s-2'' ''b@x.io'',
                         sess_account_index = 0,
                         sess_access_token = ''at-2'',
                         sess_created_at = 0\<rparr>,
                 current_session_id := Some ''s-2'',
                 current_account := Some (sample_info ''s-2'' ''b@x.io''),
                 accounts := [sample_info ''s-2'' ''b@x.io''],
                 access_token := Some ''at-2''\<rparr>),
             [LockAcquire, LockRelease, AllocateRequest 1,
              LockAcquire, LockRelease, AllocateRequest 1,
              RefreshRequest ''rt'', RefreshRequest ''rt'',
              LockAcquire, LockRelease, UpdateEnv ''at-1'',
              LockAcquire, LockRelease, UpdateEnv ''at-2''])
   \<and> allocate_requests
       [LockAcquire, LockRelease, AllocateRequest 1,
        LockAcquire, LockRelease, AllocateRequest 1,
        RefreshRequest ''rt'', RefreshRequest ''rt'',
        LockAcquire, LockRelease, UpdateEnv ''at-1'',
        LockAcquire, LockRelease, UpdateEnv ''at-2''] = 2"
  by (simp add: two_acquires_interleaved_def acquire_receive_def acquire_resume_def
      acquire_store_def sample_defs broker_defs)

text \<open>
  C2, amended. Release holds the lock from its first step to its last, its request to the
  pool service included. Acquire-token, when it finds no valid cached session, takes the
  lock to test the cache and leaves it before it sends its allocation request, which is
  sent with the lock not held; mark-quota-exhausted sends its request to the pool service
  with the lock not held. Of two acquire-token calls started together that find no valid
  cached session, each sends its own allocation request, two in all. When a call that
  found no valid cached session has returned a token, a second call that starts after it,
  at most 1800 seconds later and with that token not expired, returns the same token, and
  one allocation request is sent in all.
\<close>

theorem lock_scope_and_allocations:
  "unlocked_requests False (snd (release_current_session release b)) = []
   \<and> (fst (acquire_check cfg now b) = None \<longrightarrow>
        AllocateRequest (accounts_per_request cfg)
          \<in> set (unlocked_requests False
                   (snd (snd (acquire_pool_access_token cfg now allocation refresh b)))))
   \<and> (\<forall>s. current_session b = Some s \<longrightarrow> info_email (sess_account s) \<noteq> [] \<longrightarrow>
        MarkRequest (info_email (sess_account s))
          \<in> set (unlocked_requests False
                   (snd (snd (mark_current_account_quota_exhausted cfg mark refresh b)))))
   \<and> (fst (acquire_check cfg now b) = None \<longrightarrow>
        (\<exists>outcome1 outcome2 evs.
           two_acquires_interleaved cfg now allocation refresh allocation' refresh' b =
             Some (outcome1, outcome2, evs) \<and>
           allocate_requests evs = 2))
   \<and> (fst (acquire_check cfg now b) = None \<longrightarrow>
        fst (acquire_pool_access_token cfg now allocation refresh b) = Inr token \<longrightarrow>
        now' - now \<le> 1800 \<longrightarrow>
        is_token_expired cfg token = Some False \<longrightarrow>
          fst (snd (two_acquires_sequential cfg now allocation refresh
                      now' allocation' refresh' b)) = Inr token
        \<and> allocate_requests
            (snd (snd (snd (two_acquires_sequential cfg now allocation refresh
                              now' allocation' refresh' b)))) = 1)
   \<and> (\<exists>mid. snd (release_current_session release b) = LockAcquire # mid @ [LockRelease] \<and>
              LockAcquire \<notin> set mid \<and> LockRelease \<notin> set mid)
   \<and> (fst (acquire_check cfg now b) = None \<longrightarrow>
        (\<exists>evs. snd (snd (acquire_pool_access_token cfg now allocation refresh b)) =
                 LockAcquire # LockRelease # AllocateRequest (accounts_per_request cfg) # evs))"
proof -
  have rel: "unlocked_requests False (snd (release_current_session release b)) = []"
    by (cases release)
      (simp_all add: release_current_session_def split: option.splits)
  have acq: "fst (acquire_check cfg now b) = None \<longrightarrow>
        AllocateRequest (accounts_per_request cfg)
          \<in> set (unlocked_requests False
                   (snd (snd (acquire_pool_access_token cfg now allocation refresh b))))"
  proof
    assume "fst (acquire_check cfg now b) = None"
    then have check: "acquire_check cfg now b = (None, b, [LockAcquire, LockRelease])"
      by (rule acquire_check_None)
    obtain r b' evs where
      "acquire_allocate cfg now allocation refresh b =
         (r, b', AllocateRequest (accounts_per_request cfg) # evs)"
      using acquire_allocate_shape [of cfg now allocation refresh b] by blast
    with check show "AllocateRequest (accounts_per_request cfg)
            \<in> set (unlocked_requests False
                     (snd (snd (acquire_pool_access_token cfg now allocation refresh b))))"
      by (simp add: acquire_pool_access_token_def)
  qed
  have mrk: "\<forall>s. current_session b = Some s \<longrightarrow> info_email (sess_account s) \<noteq> [] \<longrightarrow>
        MarkRequest (info_email (sess_account s))
          \<in> set (unlocked_requests False
                   (snd (snd (mark_current_account_quota_exhausted cfg mark refresh b))))"
  proof (intro allI impI)
    fix s
    assume s: "current_session b = Some s" and e: "info_email (sess_account s) \<noteq> []"
    obtain ok b' evs where sw: "switch_to_next_account cfg refresh b = (ok, b', evs)"
      by (cases "switch_to_next_account cfg refresh b")
    show "MarkRequest (info_email (sess_account s))
            \<in> set (unlocked_requests False
                     (snd (snd (mark_current_account_quota_exhausted cfg mark refresh b))))"
      using s e sw
      by (cases mark; cases ok)
        (simp_all add: mark_current_account_quota_exhausted_def Let_def)
  qed
  have inter: "fst (acquire_check cfg now b) = None \<longrightarrow>
        (\<exists>outcome1 outcome2 evs.
           two_acquires_interleaved cfg now allocation refresh allocation' refresh' b =
             Some (outcome1, outcome2, evs) \<and>
           allocate_requests evs = 2)"
    using two_acquires_both_miss [of cfg now b allocation refresh allocation' refresh']
    by blast
  have sequ: "fst (acquire_check cfg now b) = None \<longrightarrow>
        fst (acquire_pool_access_token cfg now allocation refresh b) = Inr token \<longrightarrow>
        now' - now \<le> 1800 \<longrightarrow>
        is_token_expired cfg token = Some False \<longrightarrow>
          fst (snd (two_acquires_sequential cfg now allocation refresh
                      now' allocation' refresh' b)) = Inr token
        \<and> allocate_requests
            (snd (snd (snd (two_acquires_sequential cfg now allocation refresh
                              now' allocation' refresh' b)))) = 1"
  proof (intro impI)
    assume miss: "fst (acquire_check cfg now b) = None"
      and first: "fst (acquire_pool_access_token cfg now allocation refresh b) = Inr token"
      and age: "now' - now \<le> 1800"
      and fresh: "is_token_expired cfg token = Some False"
    have check: "acquire_check cfg now b = (None, b, [LockAcquire, LockRelease])"
      using miss by (rule acquire_check_None)
    obtain r1 b1 evs1 where a1:
      "acquire_allocate cfg now allocation refresh b =
         (r1, b1, AllocateRequest (accounts_per_request cfg) # evs1)"
      "allocate_requests evs1 = 0"
      using acquire_allocate_shape [of cfg now allocation refresh b] by blast
    have acq1: "acquire_pool_access_token cfg now allocation refresh b =
        (r1, b1, [LockAcquire, LockRelease] @ AllocateRequest (accounts_per_request cfg) # evs1)"
      using check a1(1) by (simp add: acquire_pool_access_token_def)
    with first have r1: "r1 = Inr token" by simp
    from a1(1) r1 obtain s where s:
      "current_session b1 = Some s" "sess_access_token s = token" "sess_created_at s = now"
      "token \<noteq> []"
      using acquire_allocate_stores [of cfg now allocation refresh b token b1] by blast
    have valid: "fst (is_session_valid cfg now' s b1)"
      using s age fresh by (simp add: is_session_valid_iff)
    have acq2: "acquire_pool_access_token cfg now' allocation' refresh' b1 =
        (Inr token, snd (is_session_valid cfg now' s b1), [LockAcquire, LockRelease])"
      using s(1,2) valid by (simp add: acquire_pool_access_token_def acquire_check_hit)
    have seq: "two_acquires_sequential cfg now allocation refresh now' allocation' refresh' b =
        (r1, Inr token, snd (is_session_valid cfg now' s b1),
         ([LockAcquire, LockRelease] @ AllocateRequest (accounts_per_request cfg) # evs1) @
         [LockAcquire, LockRelease])"
      using acq1 acq2 by (simp add: two_acquires_sequential_def)
    show "fst (snd (two_acquires_sequential cfg now allocation refresh
                        now' allocation' refresh' b)) = Inr token
          \<and> allocate_requests
              (snd (snd (snd (two_acquires_sequential cfg now allocation refresh
                                now' allocation' refresh' b)))) = 1"
      using seq a1(2) by (simp add: allocate_requests_def)
  qed
  have whole: "\<exists>mid. snd (release_current_session release b) = LockAcquire # mid @ [LockRelease] \<and>
              LockAcquire \<notin> set mid \<and> LockRelease \<notin> set mid"
  proof (cases "current_session b")
    case None
    then have "snd (release_current_session release b) = LockAcquire # [] @ [LockRelease]"
      by (simp add: release_current_session_def)
    then show ?thesis by (intro exI [of _ "[]"]) simp
  next
    case (Some s)
    show ?thesis
    proof (cases "sess_session_id s = []")
      case True
      then have "snd (release_current_session release b) = LockAcquire # [] @ [LockRelease]"
        using Some by (simp add: release_current_session_def)
      then show ?thesis by (intro exI [of _ "[]"]) simp
    next
      case False
      then have "snd (release_current_session release b) =
          LockAcquire # [ReleaseRequest (sess_session_id s)] @ [LockRelease]"
        using Some by (cases release) (simp_all add: release_current_session_def)
      then show ?thesis by (intro exI [of _ "[ReleaseRequest (sess_session_id s)]"]) simp
    qed
  qed
  have shape: "fst (acquire_check cfg now b) = None \<longrightarrow>
        (\<exists>evs. snd (snd (acquire_pool_access_token cfg now allocation refresh b)) =
                 LockAcquire # LockRelease # AllocateRequest (accounts_per_request cfg) # evs)"
  proof
    assume "fst (acquire_check cfg now b) = None"
    then have check: "acquire_check cfg now b = (None, b, [LockAcquire, LockRelease])"
      by (rule acquire_check_None)
    obtain r b' evs where
      "acquire_allocate cfg now allocation refresh b =
         (r, b', AllocateRequest (accounts_per_request cfg) # evs)"
      using acquire_allocate_shape [of cfg now allocation refresh b] by blast
    with check show "\<exists>evs. snd (snd (acquire_pool_access_token cfg now allocation refresh b)) =
                 LockAcquire # LockRelease # AllocateRequest (accounts_per_request cfg) # evs"
      by (simp add: acquire_pool_access_token_def)
  qed
  from rel acq mrk inter sequ whole shape show ?thesis
    by (intro conjI)
qed

theorem lock_scope_and_allocations_witness:
  "unlocked_requests False (snd (release_current_session (Reply 200 ())
       (initial_broker\<lparr>current_session := Some (sample_session ''s-1'' 0)\<rparr>))) = []
   \<and> unlocked_requests False (snd (snd (mark_current_account_quota_exhausted sample_config
       (Reply 200 ()) (sample_refresh ''at-1'')
       (initial_broker\<lparr>current_session := Some (sample_session ''s-1'' 0)\<rparr>))))
     = [MarkRequest ''a@x.io'']
   \<and> map_option (\<lambda>(outcome1, outcome2, evs). (fst outcome1, fst outcome2, allocate_requests evs))
       (two_acquires_interleaved sample_config 0
          (sample_allocation ''s-1'' ''a@x.io'') (sample_refresh ''at-1'')
          (sample_allocation ''s-2'' ''b@x.io'') (sample_refresh ''at-2'') initial_broker)
     = Some (Inr ''at-1'', Inr ''at-2'', 2)
   \<and> fst (snd (two_acquires_sequential sample_config 0
       (sample_allocation ''s-1'' ''a@x.io'') (sample_refresh ''at-1'')
       60 (sample_allocation ''s-2'' ''b@x.io'') (sample_refresh ''at-2'') initial_broker))
     = Inr ''at-1''
   \<and> allocate_requests (snd (snd (snd (two_acquires_sequential sample_config 0
       (sample_allocation ''s-1'' ''a@x.io'') (sample_refresh ''at-1'')
       60 (sample_allocation ''s-2'' ''b@x.io'') (sample_refresh ''at-2'') initial_broker))))
     = 1
   \<and> fst (snd (two_acquires_sequential sample_config 2000
       (sample_allocation ''s-1'' ''a@x.io'') (sample_refresh ''at-1'')
       2060 (sample_allocation ''s-2'' ''b@x.io'') (sample_refresh ''at-2'')
       (initial_broker\<lparr>current_session := Some (sample_session ''s-0'' 0)\<rparr>)))
     = Inr ''at-1''
   \<and> allocate_requests (snd (snd (snd (two_acquires_sequential sample_config 2000
       (sample_allocation ''s-1'' ''a@x.io'') (sample_refresh ''at-1'')
       2060 (sample_allocation ''s-2'' ''b@x.io'') (sample_refresh ''at-2'')
       (initial_broker\<lparr>current_session := Some (sample_session ''s-0'' 0)\<rparr>)))))
     = 1"
  using lock_scope_and_allocations [where b = "initial_broker\<lparr>current_session := Some (sample_session ''s-1'' 0)\<rparr>"
      and cfg = sample_config and release = "Reply 200 ()" and mark = "Reply 200 ()"
      and refresh = "sample_refresh ''at-1''" and now = 0]
    lock_scope_and_allocations [where b = initial_broker
      and cfg = sample_config and now = 0 and now' = 60 and token = "''at-1''"
      and allocation = "sample_allocation ''s-1'' ''a@x.io''" and refresh = "sample_refresh ''at-1''"
      and allocation' = "sample_allocation ''s-2'' ''b@x.io''" and refresh' = "sample_refresh ''at-2''"]
    lock_scope_and_allocations [where b = "initial_broker\<lparr>current_session := Some (sample_session ''s-0'' 0)\<rparr>"
      and cfg = sample_config and now = 2000 and now' = 2060 and token = "''at-1''"
      and allocation = "sample_allocation ''s-1'' ''a@x.io''" and refresh = "sample_refresh ''at-1''"
      and allocation' = "sample_allocation ''s-2'' ''b@x.io''" and refresh' = "sample_refresh ''at-2''"]
  by (simp add: two_acquires_interleaved_def two_acquires_sequential_def
      acquire_receive_def acquire_resume_def acquire_store_def sample_defs broker_defs
      release_current_session_def mark_current_account_quota_exhausted_def
      switch_to_next_account_def clear_session_def)

end
